theory Spec2Isabelle
  imports Complex_Main
begin

section \<open>Python values, exceptions and the library primitives the code calls\<close>

text \<open>
  The four patched methods of \<^verbatim>\<open>exchange_factory.py\<close> work on decoded JSON: what
  \<^verbatim>\<open>response.json()\<close> returns, the caller's \<^verbatim>\<open>params\<close> dict, the \<^verbatim>\<open>amount\<close> and
  \<^verbatim>\<open>price\<close> arguments. A value is \<^verbatim>\<open>None\<close>, a bool, an int (unbounded), a float, a str,
  a list or a dict with str keys, kept as the list of its items in insertion order (the
  keys of a dict are distinct). The type \<open>'f\<close> stands for
  Python's float: the code only converts to it, subtracts, compares with zero and prints,
  and these operations are taken from the record \<open>pylib\<close> below instead of being fixed
  to one arithmetic. A \<open>string\<close> holds the UTF-8 bytes of the Python str, and
  \<^verbatim>\<open>str.upper\<close>, which follows the Unicode case tables, is taken from the same record.
\<close>

datatype 'f json =
    JNull
  | JBool bool
  | JInt int
  | JFloat 'f
  | JStr string
  | JArr "'f json list"
  | JObj "(string \<times> 'f json) list"

text \<open>
  Exceptions. \<open>Exception msg v\<close> is \<^verbatim>\<open>Exception(f"<msg>{v}")\<close>: the literal text of the
  f-string and the value interpolated after it. The other constructors are the built-in
  exception classes that the unguarded code can raise; \<open>ContentTypeError\<close>,
  \<open>BadSymbol\<close> and \<open>NetworkError\<close> are errors of the libraries (\<^verbatim>\<open>aiohttp\<close> on a body
  that is not JSON, \<^verbatim>\<open>ccxt\<close> on an unknown symbol, either on a failed connection).
\<close>

datatype 'f py_error =
    Exception string "'f json"
  | AttributeError
  | KeyError
  | TypeError
  | ValueError
  | OverflowError
  | ContentTypeError
  | BadSymbol
  | NetworkError

text \<open>
  The interpreter and standard-library functions the code calls and does not define:
  \<^verbatim>\<open>float(i)\<close> for an int (no result: OverflowError), \<^verbatim>\<open>float(s)\<close> for a str (no result:
  ValueError), float subtraction, \<^verbatim>\<open>x > 0\<close> and \<^verbatim>\<open>bool(x)\<close> on a float, \<^verbatim>\<open>str\<close> of a
  float and of a list or dict, \<^verbatim>\<open>s.upper()\<close> on a str, and
  \<^verbatim>\<open>hmac.new(key, msg, hashlib.sha256).hexdigest()\<close>.
\<close>

record 'f pylib =
  float_of_int :: "int \<Rightarrow> 'f option"
  float_of_str :: "string \<Rightarrow> 'f option"
  float_sub :: "'f \<Rightarrow> 'f \<Rightarrow> 'f"
  float_pos :: "'f \<Rightarrow> bool"
  float_bool :: "'f \<Rightarrow> bool"
  float_str :: "'f \<Rightarrow> string"
  container_str :: "'f json \<Rightarrow> string"
  str_upper :: "string \<Rightarrow> string"
  hmac_sha256_hex :: "string \<Rightarrow> string \<Rightarrow> string"

subsection \<open>Truthiness, \<^verbatim>\<open>float()\<close>, \<^verbatim>\<open>str()\<close>\<close>

fun py_truthy :: "'f pylib \<Rightarrow> 'f json \<Rightarrow> bool" where
  "py_truthy P JNull = False"
| "py_truthy P (JBool b) = b"
| "py_truthy P (JInt i) = (i \<noteq> 0)"
| "py_truthy P (JFloat x) = float_bool P x"
| "py_truthy P (JStr s) = (s \<noteq> [])"
| "py_truthy P (JArr xs) = (xs \<noteq> [])"
| "py_truthy P (JObj kvs) = (kvs \<noteq> [])"

fun py_float :: "'f pylib \<Rightarrow> 'f json \<Rightarrow> 'f py_error + 'f" where
  "py_float P (JFloat x) = Inr x"
| "py_float P (JInt i) =
     (case float_of_int P i of None \<Rightarrow> Inl OverflowError | Some x \<Rightarrow> Inr x)"
| "py_float P (JBool b) =
     (case float_of_int P (if b then 1 else 0) of None \<Rightarrow> Inl OverflowError | Some x \<Rightarrow> Inr x)"
| "py_float P (JStr s) =
     (case float_of_str P s of None \<Rightarrow> Inl ValueError | Some x \<Rightarrow> Inr x)"
| "py_float P JNull = Inl TypeError"
| "py_float P (JArr xs) = Inl TypeError"
| "py_float P (JObj kvs) = Inl TypeError"

definition digit_char :: "nat \<Rightarrow> char" where
  "digit_char d = ''0123456789'' ! d"

fun str_nat :: "nat \<Rightarrow> string" where
  "str_nat n = (if n < 10 then [digit_char n] else str_nat (n div 10) @ [digit_char (n mod 10)])"

declare str_nat.simps [simp del]

definition str_int :: "int \<Rightarrow> string" where
  "str_int i = (if i < 0 then CHR ''-'' # str_nat (nat (- i)) else str_nat (nat i))"

fun py_str :: "'f pylib \<Rightarrow> 'f json \<Rightarrow> string" where
  "py_str P JNull = ''None''"
| "py_str P (JBool b) = (if b then ''True'' else ''False'')"
| "py_str P (JInt i) = str_int i"
| "py_str P (JFloat x) = float_str P x"
| "py_str P (JStr s) = s"
| "py_str P (JArr xs) = container_str P (JArr xs)"
| "py_str P (JObj kvs) = container_str P (JObj kvs)"

subsection \<open>Dictionary access and iteration\<close>

text \<open>
  \<^verbatim>\<open>v.get(k, default)\<close> exists on a dict only; \<^verbatim>\<open>v[k]\<close> with a str key raises KeyError on
  a dict without the key and TypeError on every other value; \<^verbatim>\<open>for x in v\<close> runs over
  the elements of a list, the keys of a dict and the characters of a str, and raises
  TypeError on the rest.
\<close>

fun py_get :: "'f json \<Rightarrow> string \<Rightarrow> 'f json \<Rightarrow> 'f py_error + 'f json" where
  "py_get (JObj kvs) k dflt = (case map_of kvs k of None \<Rightarrow> Inr dflt | Some v \<Rightarrow> Inr v)"
| "py_get v k dflt = Inl AttributeError"

fun py_getitem :: "'f json \<Rightarrow> string \<Rightarrow> 'f py_error + 'f json" where
  "py_getitem (JObj kvs) k = (case map_of kvs k of None \<Rightarrow> Inl KeyError | Some v \<Rightarrow> Inr v)"
| "py_getitem v k = Inl TypeError"

fun py_iter :: "'f json \<Rightarrow> 'f py_error + 'f json list" where
  "py_iter (JArr xs) = Inr xs"
| "py_iter (JObj kvs) = Inr (map (\<lambda>kv. JStr (fst kv)) kvs)"
| "py_iter (JStr s) = Inr (map (\<lambda>c. JStr [c]) s)"
| "py_iter v = Inl TypeError"

fun hashable :: "'f json \<Rightarrow> bool" where
  "hashable (JArr xs) = False"
| "hashable (JObj kvs) = False"
| "hashable v = True"

subsection \<open>Insertion-ordered dicts with str keys\<close>

text \<open>
  \<^verbatim>\<open>d[k] = v\<close> on a dict that is sent over the wire in insertion order: an existing key
  keeps its place and gets the new value, a new key goes to the end.
\<close>

fun dict_setitem :: "(string \<times> 'v) list \<Rightarrow> string \<Rightarrow> 'v \<Rightarrow> (string \<times> 'v) list" where
  "dict_setitem [] k v = [(k, v)]"
| "dict_setitem (p # ps) k v = (if fst p = k then (k, v) # ps else p # dict_setitem ps k v)"

definition dict_get :: "(string \<times> 'v) list \<Rightarrow> string \<Rightarrow> 'v \<Rightarrow> 'v" where
  "dict_get d k dflt = (case map_of d k of None \<Rightarrow> dflt | Some v \<Rightarrow> v)"

definition dict_keys :: "(string \<times> 'v) list \<Rightarrow> string list" where
  "dict_keys d = map fst d"

subsection \<open>\<^verbatim>\<open>urllib.parse.urlencode\<close> and the signature\<close>

definition hex_digit :: "nat \<Rightarrow> char" where
  "hex_digit d = ''0123456789ABCDEF'' ! d"

definition always_safe :: "char \<Rightarrow> bool" where
  "always_safe c \<longleftrightarrow>
     c \<in> set (''ABCDEFGHIJKLMNOPQRSTUVWXYZ'' @ ''abcdefghijklmnopqrstuvwxyz'' @ ''0123456789''
              @ ''_.-~'')"

text \<open>
  \<^verbatim>\<open>quote_plus\<close> with its default \<^verbatim>\<open>safe=''\<close>: letters, digits and \<^verbatim>\<open>_.-~\<close> stay, a space
  becomes \<^verbatim>\<open>+\<close>, every other byte becomes \<^verbatim>\<open>%XX\<close> in upper-case hexadecimal.
\<close>

definition quote_char :: "char \<Rightarrow> string" where
  "quote_char c =
     (if always_safe c then [c]
      else if c = CHR '' '' then ''+''
      else [CHR ''%'', hex_digit (of_char c div 16), hex_digit (of_char c mod 16)])"

definition quote_plus :: "string \<Rightarrow> string" where
  "quote_plus s = concat (map quote_char s)"

fun join_amp :: "string list \<Rightarrow> string" where
  "join_amp [] = []"
| "join_amp [x] = x"
| "join_amp (x # y # ys) = x @ ''&'' @ join_amp (y # ys)"

text \<open>
  \<^verbatim>\<open>urlencode(d)\<close>: every key and every value goes through \<^verbatim>\<open>str\<close> and \<^verbatim>\<open>quote_plus\<close>, the
  pairs are written \<^verbatim>\<open>k=v\<close> in the dict's order and joined with \<^verbatim>\<open>&\<close>.
\<close>

definition urlencode :: "'f pylib \<Rightarrow> (string \<times> 'f json) list \<Rightarrow> string" where
  "urlencode P d =
     join_amp (map (\<lambda>kv. quote_plus (fst kv) @ ''='' @ quote_plus (py_str P (snd kv))) d)"

text \<open>
  \<^verbatim>\<open>hmac.new(self.secret.encode('utf-8'), query_string.encode('utf-8'), hashlib.sha256).hexdigest()\<close>
\<close>

definition signature :: "'f pylib \<Rightarrow> string \<Rightarrow> string \<Rightarrow> string" where
  "signature P secret query_string = hmac_sha256_hex P secret query_string"

section \<open>The client, the exchange and the underlying library\<close>

text \<open>
  A market of the library is a dict whose \<^verbatim>\<open>'id'\<close> entry is the exchange's own name of
  the pair; the client is the \<^verbatim>\<open>ccxt.binance\<close> instance, of which the patches read the
  credentials and the market table (empty until \<^verbatim>\<open>load_markets\<close> has run).
\<close>

record market =
  market_id :: string
  market_symbol :: string

record client =
  apiKey :: string
  secret :: string
  markets :: "(string \<times> market) list"

datatype http_method = GET | POST

record request =
  http_method :: http_method
  url :: string
  headers :: "(string \<times> string) list"
  ssl :: bool

text \<open>
  A response: its status and what \<^verbatim>\<open>await response.json()\<close> does, which is to return the
  decoded body or to raise the decoder's error.
\<close>

record 'f response =
  status :: int
  json_body :: "'f py_error + 'f json"

text \<open>
  The world of one call: the clock (\<^verbatim>\<open>int(time.time() * 1000)\<close>), the exchange as seen
  through \<^verbatim>\<open>aiohttp\<close> (a request gets a response, or the session raises), and the
  methods of the library that the patches call and do not replace. \<open>load_markets\<close> is
  the library's method as a call: it raises, or it returns with the market table of the
  client loaded.
\<close>

record 'f world =
  time_ms :: int
  http :: "request \<Rightarrow> 'f py_error + 'f response"
  load_markets :: "client \<Rightarrow> 'f py_error + client"
  market :: "client \<Rightarrow> string \<Rightarrow> 'f py_error + market"
  parse_ticker :: "'f json \<Rightarrow> market \<Rightarrow> 'f py_error + 'f json"
  parse_order :: "'f json \<Rightarrow> market \<Rightarrow> 'f py_error + 'f json"

definition testnet :: string where
  "testnet = ''https://testnet.binancefuture.com''"

text \<open>
  The common tail of the four methods: issue the request, decode the body, and only then
  look at the status.
  \<^verbatim>\<open>
  async with session.get(url, headers=headers, ssl=False) as response:
      data = await response.json()
      if response.status != 200:
          raise Exception(f"... failed: {data}")
  \<close>
\<close>

definition send :: "'f world \<Rightarrow> request \<Rightarrow> 'f py_error + (int \<times> 'f json)" where
  "send W req =
     (case http W req of
        Inl e \<Rightarrow> Inl e
      | Inr resp \<Rightarrow>
          (case json_body resp of
             Inl e \<Rightarrow> Inl e
           | Inr data \<Rightarrow> Inr (status resp, data)))"

text \<open>
  The query of the two signed reads:
  \<^verbatim>\<open>payload = {'timestamp': timestamp, 'recvWindow': 60000}\<close>.
\<close>

definition read_payload :: "int \<Rightarrow> (string \<times> 'f json) list" where
  "read_payload timestamp = [(''timestamp'', JInt timestamp), (''recvWindow'', JInt 60000)]"

definition signed_url :: "'f pylib \<Rightarrow> client \<Rightarrow> string \<Rightarrow> (string \<times> 'f json) list \<Rightarrow> string" where
  "signed_url P self path payload =
     (let query_string = urlencode P payload;
          sig = signature P (secret self) query_string
      in testnet @ path @ ''?'' @ query_string @ ''&signature='' @ sig)"

definition auth_headers :: "client \<Rightarrow> (string \<times> string) list" where
  "auth_headers self = [(''X-MBX-APIKEY'', apiKey self)]"

subsection \<open>Sequencing of calls that may raise\<close>

definition and_then :: "'e + 'a \<Rightarrow> ('a \<Rightarrow> 'e + 'b) \<Rightarrow> 'e + 'b" where
  "and_then r f = (case r of Inl e \<Rightarrow> Inl e | Inr x \<Rightarrow> f x)"

section \<open>PATCH 1: \<^verbatim>\<open>fetch_balance\<close>\<close>

text \<open>
  The result is a dict whose values are the raw payload (under \<^verbatim>\<open>'info'\<close>) and dicts of
  floats: the three sub-mappings and one dict per asset. Its keys are the literals
  \<^verbatim>\<open>'info'\<close>, \<^verbatim>\<open>'free'\<close>, \<^verbatim>\<open>'used'\<close>, \<^verbatim>\<open>'total'\<close> and whatever the payload holds in the
  \<^verbatim>\<open>asset\<close> fields, so a key is a JSON value. Every dict object of the result is held
  by one key only (each asset's dict is fresh), so updating \<^verbatim>\<open>result[k][c]\<close> is an update
  of the value stored at \<^verbatim>\<open>k\<close>. Python takes keys that compare equal for one key, also
  across the numeric types (\<^verbatim>\<open>True\<close>, \<^verbatim>\<open>1\<close> and \<^verbatim>\<open>1.0\<close>); the model keeps values of
  different types apart, so what is stated below about the entry of one symbol is stated
  for symbols that are strings.
\<close>

datatype 'f entry = Info "'f json" | Amounts "'f json \<Rightarrow> 'f option"

type_synonym 'f balance = "'f json \<Rightarrow> 'f entry option"

definition balance_request :: "'f pylib \<Rightarrow> client \<Rightarrow> int \<Rightarrow> request" where
  "balance_request P self timestamp =
     \<lparr>http_method = GET,
      url = signed_url P self ''/fapi/v2/account'' (read_payload timestamp),
      headers = auth_headers self,
      ssl = False\<rparr>"

text \<open>\<^verbatim>\<open>result = {'info': data, 'free': {}, 'used': {}, 'total': {}}\<close>\<close>

definition new_balance :: "'f json \<Rightarrow> 'f balance" where
  "new_balance data =
     [JStr ''info'' \<mapsto> Info data, JStr ''free'' \<mapsto> Amounts Map.empty,
      JStr ''used'' \<mapsto> Amounts Map.empty, JStr ''total'' \<mapsto> Amounts Map.empty]"

text \<open>
  \<^verbatim>\<open>result[k][currency] = v\<close>. The value at \<^verbatim>\<open>'free'\<close> and at \<^verbatim>\<open>'total'\<close> is a dict of
  floats throughout the loop (\<open>setitem2_new_balance_loop\<close> below), so the two error
  branches are never taken by the code.
\<close>

definition setitem2 :: "'f balance \<Rightarrow> 'f json \<Rightarrow> 'f json \<Rightarrow> 'f \<Rightarrow> 'f py_error + 'f balance" where
  "setitem2 result k currency v =
     (case result k of
        None \<Rightarrow> Inl KeyError
      | Some (Info j) \<Rightarrow> Inl TypeError
      | Some (Amounts m) \<Rightarrow> Inr (result(k \<mapsto> Amounts (m(currency \<mapsto> v)))))"

text \<open>\<^verbatim>\<open>{'free': free, 'used': total - free, 'total': total}\<close>\<close>

definition asset_entry :: "'f pylib \<Rightarrow> 'f \<Rightarrow> 'f \<Rightarrow> 'f entry" where
  "asset_entry P total' free =
     Amounts [JStr ''free'' \<mapsto> free, JStr ''used'' \<mapsto> float_sub P total' free,
              JStr ''total'' \<mapsto> total']"

text \<open>
  The body of the loop:
  \<^verbatim>\<open>
  currency = asset.get('asset')
  if not currency:
      continue
  total = float(asset.get('walletBalance', 0))
  free = float(asset.get('availableBalance', 0))
  result[currency] = {'free': free, 'used': total - free, 'total': total}
  result['free'][currency] = free
  result['total'][currency] = total
  \<close>
  A list or dict as \<^verbatim>\<open>currency\<close> is unhashable: the first assignment raises TypeError.
\<close>

definition balance_step :: "'f pylib \<Rightarrow> 'f balance \<Rightarrow> 'f json \<Rightarrow> 'f py_error + 'f balance" where
  "balance_step P result asset =
     and_then (py_get asset ''asset'' JNull) (\<lambda>currency.
       if \<not> py_truthy P currency then Inr result
       else
         and_then (and_then (py_get asset ''walletBalance'' (JInt 0)) (py_float P)) (\<lambda>total'.
         and_then (and_then (py_get asset ''availableBalance'' (JInt 0)) (py_float P)) (\<lambda>free.
           if \<not> hashable currency then Inl TypeError
           else
             and_then (setitem2 (result(currency \<mapsto> asset_entry P total' free))
                         (JStr ''free'') currency free) (\<lambda>result'.
             setitem2 result' (JStr ''total'') currency total'))))"

fun balance_loop :: "'f pylib \<Rightarrow> 'f balance \<Rightarrow> 'f json list \<Rightarrow> 'f py_error + 'f balance" where
  "balance_loop P result [] = Inr result"
| "balance_loop P result (asset # rest) =
     and_then (balance_step P result asset) (\<lambda>result'. balance_loop P result' rest)"

text \<open>
  \<^verbatim>\<open>
  result = {'info': data, 'free': {}, 'used': {}, 'total': {}}
  for asset in data.get('assets', []):
      ...
  return result
  \<close>
\<close>

definition balance_reshape :: "'f pylib \<Rightarrow> 'f json \<Rightarrow> 'f py_error + 'f balance" where
  "balance_reshape P data =
     and_then (py_get data ''assets'' (JArr [])) (\<lambda>assets.
     and_then (py_iter assets) (\<lambda>items.
       balance_loop P (new_balance data) items))"

definition patched_fetch_balance ::
  "'f pylib \<Rightarrow> 'f world \<Rightarrow> client \<Rightarrow> (string \<times> 'f json) list \<Rightarrow> 'f py_error + 'f balance" where
  "patched_fetch_balance P W self params =
     (let timestamp = time_ms W in
      and_then (send W (balance_request P self timestamp)) (\<lambda>r.
        if fst r \<noteq> 200 then Inl (Exception ''Balance fetch failed: '' (snd r))
        else balance_reshape P (snd r)))"

text \<open>\<^verbatim>\<open>result[k][c]\<close> read back, for stating what the result holds.\<close>

definition amount_at :: "'f balance \<Rightarrow> 'f json \<Rightarrow> 'f json \<Rightarrow> 'f option" where
  "amount_at result k c = (case result k of Some (Amounts m) \<Rightarrow> m c | _ \<Rightarrow> None)"

section \<open>PATCH 3: \<^verbatim>\<open>fetch_positions\<close>\<close>

definition positions_request :: "'f pylib \<Rightarrow> client \<Rightarrow> int \<Rightarrow> request" where
  "positions_request P self timestamp =
     \<lparr>http_method = GET,
      url = signed_url P self ''/fapi/v2/positionRisk'' (read_payload timestamp),
      headers = auth_headers self,
      ssl = False\<rparr>"

text \<open>
  The dict literal appended for one item; its entries are evaluated in the order written,
  so \<^verbatim>\<open>float(item['positionAmt'])\<close> is computed twice, for \<^verbatim>\<open>'contracts'\<close> and for
  \<^verbatim>\<open>'side'\<close>.
  \<^verbatim>\<open>
  {'info': item,
   'symbol': item['symbol'],
   'contracts': float(item['positionAmt']),
   'unrealizedPnl': float(item['unRealizedProfit']),
   'leverage': float(item['leverage']),
   'side': 'long' if float(item['positionAmt']) > 0 else 'short',
   'entryPrice': float(item['entryPrice'])}
  \<close>
\<close>

definition position_record :: "'f pylib \<Rightarrow> 'f json \<Rightarrow> 'f py_error + 'f json" where
  "position_record P item =
     and_then (py_getitem item ''symbol'') (\<lambda>sym.
     and_then (and_then (py_getitem item ''positionAmt'') (py_float P)) (\<lambda>contracts.
     and_then (and_then (py_getitem item ''unRealizedProfit'') (py_float P)) (\<lambda>pnl.
     and_then (and_then (py_getitem item ''leverage'') (py_float P)) (\<lambda>lev.
     and_then (and_then (py_getitem item ''positionAmt'') (py_float P)) (\<lambda>amt.
     and_then (and_then (py_getitem item ''entryPrice'') (py_float P)) (\<lambda>entry.
       Inr (JObj
         [(''info'', item),
          (''symbol'', sym),
          (''contracts'', JFloat contracts),
          (''unrealizedPnl'', JFloat pnl),
          (''leverage'', JFloat lev),
          (''side'', JStr (if float_pos P amt then ''long'' else ''short'')),
          (''entryPrice'', JFloat entry)])))))))"

fun positions_loop :: "'f pylib \<Rightarrow> 'f json list \<Rightarrow> 'f json list \<Rightarrow> 'f py_error + 'f json list" where
  "positions_loop P result [] = Inr result"
| "positions_loop P result (item # rest) =
     and_then (position_record P item) (\<lambda>r. positions_loop P (result @ [r]) rest)"

text \<open>
  \<^verbatim>\<open>
  result = []
  for item in data:
      result.append({...})
  return result
  \<close>
\<close>

definition positions_reshape :: "'f pylib \<Rightarrow> 'f json \<Rightarrow> 'f py_error + 'f json list" where
  "positions_reshape P data = and_then (py_iter data) (positions_loop P [])"

text \<open>
  \<^verbatim>\<open>async def patched_fetch_positions(self, symbols=None, params={})\<close>: both arguments are
  part of the signature.
\<close>

definition patched_fetch_positions ::
  "'f pylib \<Rightarrow> 'f world \<Rightarrow> client \<Rightarrow> 'f json \<Rightarrow> (string \<times> 'f json) list
     \<Rightarrow> 'f py_error + 'f json list" where
  "patched_fetch_positions P W self symbols params =
     (let timestamp = time_ms W in
      and_then (send W (positions_request P self timestamp)) (\<lambda>r.
        if fst r \<noteq> 200 then Inl (Exception ''Positions fetch failed: '' (snd r))
        else positions_reshape P (snd r)))"

text \<open>
  The request that a call of \<^verbatim>\<open>fetch_positions\<close> sends, as a function of all the
  arguments of the call.
\<close>

definition positions_call_request ::
  "'f pylib \<Rightarrow> 'f world \<Rightarrow> client \<Rightarrow> 'f json \<Rightarrow> (string \<times> 'f json) list \<Rightarrow> request" where
  "positions_call_request P W self symbols params = positions_request P self (time_ms W)"

section \<open>PATCH 2: \<^verbatim>\<open>fetch_ticker\<close>\<close>

text \<open>
  \<^verbatim>\<open>
  if not self.markets:
      await self.load_markets()
  \<close>
  The client is the one that \<^verbatim>\<open>create_binance_demo\<close> builds: \<^verbatim>\<open>ccxt.binance\<close> of the
  synchronous \<^verbatim>\<open>import ccxt\<close>. Its \<^verbatim>\<open>load_markets()\<close> is an ordinary call that returns the
  dict of markets, so the \<^verbatim>\<open>await\<close> of its result raises TypeError, after the table has
  been loaded. The step gives the client as it leaves it, and whether the method goes on.
\<close>

definition ensure_markets :: "'f world \<Rightarrow> client \<Rightarrow> client \<times> ('f py_error + unit)" where
  "ensure_markets W self =
     (if markets self = [] then
        (case load_markets W self of
           Inl e \<Rightarrow> (self, Inl e)
         | Inr self' \<Rightarrow> (self', Inl TypeError))
      else (self, Inr ()))"

definition ticker_request :: "market \<Rightarrow> request" where
  "ticker_request m =
     \<lparr>http_method = GET,
      url = testnet @ ''/fapi/v1/ticker/24hr?symbol='' @ market_id m,
      headers = [],
      ssl = False\<rparr>"

text \<open>
  The method gives the client as the call leaves it (the market table may have been
  loaded) and the outcome.
\<close>

definition patched_fetch_ticker ::
  "'f pylib \<Rightarrow> 'f world \<Rightarrow> client \<Rightarrow> string \<Rightarrow> (string \<times> 'f json) list
     \<Rightarrow> client \<times> ('f py_error + 'f json)" where
  "patched_fetch_ticker P W self symbol params =
     (case ensure_markets W self of
        (self', Inl e) \<Rightarrow> (self', Inl e)
      | (self', Inr u) \<Rightarrow>
          (self',
           and_then (market W self' symbol) (\<lambda>m.
           and_then (send W (ticker_request m)) (\<lambda>r.
             if fst r \<noteq> 200 then Inl (Exception ''Ticker fetch failed: '' (snd r))
             else parse_ticker W (snd r) m))))"

section \<open>PATCH 4: \<^verbatim>\<open>create_order\<close>\<close>

text \<open>
  \<^verbatim>\<open>
  order_params = {
      'symbol': market['id'],
      'side': side.upper(),
      'type': type.upper(),
      'quantity': str(amount),
      'timestamp': timestamp,
      'recvWindow': 60000
  }
  \<close>
\<close>

definition required_params ::
  "'f pylib \<Rightarrow> market \<Rightarrow> string \<Rightarrow> string \<Rightarrow> 'f json \<Rightarrow> int \<Rightarrow> (string \<times> 'f json) list" where
  "required_params P m order_type side amount timestamp =
     [(''symbol'', JStr (market_id m)),
      (''side'', JStr (str_upper P side)),
      (''type'', JStr (str_upper P order_type)),
      (''quantity'', JStr (py_str P amount)),
      (''timestamp'', JInt timestamp),
      (''recvWindow'', JInt 60000)]"

text \<open>
  \<^verbatim>\<open>
  if price and type.upper() == 'LIMIT':
      order_params['price'] = str(price)
      order_params['timeInForce'] = params.get('timeInForce', 'GTC')
  \<close>
\<close>

definition add_price ::
  "'f pylib \<Rightarrow> (string \<times> 'f json) list \<Rightarrow> string \<Rightarrow> 'f json \<Rightarrow> (string \<times> 'f json) list
     \<Rightarrow> (string \<times> 'f json) list" where
  "add_price P order_params order_type price params =
     (if py_truthy P price \<and> str_upper P order_type = ''LIMIT''
      then dict_setitem (dict_setitem order_params ''price'' (JStr (py_str P price)))
             ''timeInForce'' (dict_get params ''timeInForce'' (JStr ''GTC''))
      else order_params)"

text \<open>
  \<^verbatim>\<open>
  for key, value in params.items():
      if key not in order_params:
          order_params[key] = value
  \<close>
\<close>

fun merge_params ::
  "(string \<times> 'f json) list \<Rightarrow> (string \<times> 'f json) list \<Rightarrow> (string \<times> 'f json) list" where
  "merge_params order_params [] = order_params"
| "merge_params order_params (kv # rest) =
     merge_params
       (if fst kv \<notin> set (dict_keys order_params)
        then dict_setitem order_params (fst kv) (snd kv)
        else order_params)
       rest"

text \<open>The parameter set that is encoded and signed (lines 151 to 166).\<close>

definition order_params ::
  "'f pylib \<Rightarrow> market \<Rightarrow> string \<Rightarrow> string \<Rightarrow> 'f json \<Rightarrow> 'f json \<Rightarrow> (string \<times> 'f json) list
     \<Rightarrow> int \<Rightarrow> (string \<times> 'f json) list" where
  "order_params P m order_type side amount price params timestamp =
     merge_params
       (add_price P (required_params P m order_type side amount timestamp) order_type price params)
       params"

definition order_request :: "'f pylib \<Rightarrow> client \<Rightarrow> (string \<times> 'f json) list \<Rightarrow> request" where
  "order_request P self payload =
     \<lparr>http_method = POST,
      url = signed_url P self ''/fapi/v1/order'' payload,
      headers = auth_headers self,
      ssl = False\<rparr>"

text \<open>
  On success the method prints the acknowledgement
  \<^verbatim>\<open>Order Success: ID={data.get('orderId')}\<close> and returns \<^verbatim>\<open>self.parse_order(data, market)\<close>;
  the outcome holds the printed identifier and the parsed order.
\<close>

definition patched_create_order ::
  "'f pylib \<Rightarrow> 'f world \<Rightarrow> client \<Rightarrow> string \<Rightarrow> string \<Rightarrow> string \<Rightarrow> 'f json \<Rightarrow> 'f json
     \<Rightarrow> (string \<times> 'f json) list \<Rightarrow> client \<times> ('f py_error + ('f json \<times> 'f json))" where
  "patched_create_order P W self symbol order_type side amount price params =
     (case ensure_markets W self of
        (self', Inl e) \<Rightarrow> (self', Inl e)
      | (self', Inr u) \<Rightarrow>
          (self',
           and_then (market W self' symbol) (\<lambda>m.
             let timestamp = time_ms W;
                 payload = order_params P m order_type side amount price params timestamp
             in
             and_then (send W (order_request P self' payload)) (\<lambda>r.
               if fst r \<noteq> 200 then Inl (Exception ''Order failed: '' (snd r))
               else
                 and_then (py_get (snd r) ''orderId'' JNull) (\<lambda>order_id.
                 and_then (parse_order W (snd r) m) (\<lambda>order.
                   Inr (order_id, order)))))))"

section \<open>Notions used in the statements\<close>

text \<open>
  The loop of \<^verbatim>\<open>fetch_balance\<close> keeps a dict of amounts under \<^verbatim>\<open>'free'\<close> and under
  \<^verbatim>\<open>'total'\<close>.
\<close>

definition has_amounts :: "'f balance \<Rightarrow> bool" where
  "has_amounts r \<longleftrightarrow>
     (case r (JStr ''free'') of Some (Amounts m) \<Rightarrow> True | _ \<Rightarrow> False) \<and>
     (case r (JStr ''total'') of Some (Amounts m) \<Rightarrow> True | _ \<Rightarrow> False)"

text \<open>The built-in exceptions that reshaping a payload of an unexpected shape can raise.\<close>

definition reshape_error :: "'f py_error \<Rightarrow> bool" where
  "reshape_error e \<longleftrightarrow>
     e = AttributeError \<or> e = KeyError \<or> e = TypeError \<or> e = ValueError \<or> e = OverflowError"

text \<open>
  What \<^verbatim>\<open>urlencode\<close> reads of a parameter set: the keys, in order, and the \<^verbatim>\<open>str\<close> of
  the values.
\<close>

definition printed :: "'f pylib \<Rightarrow> (string \<times> 'f json) list \<Rightarrow> (string \<times> string) list" where
  "printed P d = map (\<lambda>kv. (fst kv, py_str P (snd kv))) d"

text \<open>
  A remainder of a query string after an encoded key or value: nothing, or text that
  begins with one of the separators \<^verbatim>\<open>=\<close> and \<^verbatim>\<open>&\<close>.
\<close>

definition sep :: "string \<Rightarrow> bool" where
  "sep r \<longleftrightarrow> (case r of [] \<Rightarrow> True | x # xs \<Rightarrow> x = CHR ''='' \<or> x = CHR ''&'')"

section \<open>A sample interpreter and a simulated exchange\<close>

text \<open>
  To run the model on concrete inputs the library record is instantiated: floats are
  real numbers, \<^verbatim>\<open>float(s)\<close> reads plain decimal literals (an optional sign, digits, an
  optional fraction), \<^verbatim>\<open>upper\<close> is the one of ASCII text. The printing functions
  and the digest are stand-ins: the sample
  runs below never print a float or a container, and they compare signatures only for
  equality, for which the stand-in digest (key, a bar, the message) is as good as any.
\<close>

definition digit_val :: "char \<Rightarrow> nat option" where
  "digit_val c = map_of (zip ''0123456789'' [0, 1, 2, 3, 4, 5, 6, 7, 8, 9]) c"

fun digits_val :: "nat \<Rightarrow> string \<Rightarrow> nat option" where
  "digits_val acc [] = Some acc"
| "digits_val acc (c # cs) =
     (case digit_val c of None \<Rightarrow> None | Some d \<Rightarrow> digits_val (10 * acc + d) cs)"

definition sample_float_of_str :: "string \<Rightarrow> real option" where
  "sample_float_of_str s =
     (let neg = (take 1 s = ''-'');
          body = (if neg then drop 1 s else s);
          whole = takeWhile (\<lambda>c. c \<noteq> CHR ''.'') body;
          frac = drop 1 (dropWhile (\<lambda>c. c \<noteq> CHR ''.'') body)
      in if whole = [] then None
         else
           (case (digits_val 0 whole, digits_val 0 frac) of
              (Some w, Some f) \<Rightarrow>
                Some ((if neg then - 1 else 1) * (real w + real f / 10 ^ length frac))
            | _ \<Rightarrow> None))"

text \<open>The sample \<^verbatim>\<open>upper\<close> maps the ASCII letters and leaves every other byte.\<close>

definition sample_upper_char :: "char \<Rightarrow> char" where
  "sample_upper_char c =
     (case map_of (zip ''abcdefghijklmnopqrstuvwxyz'' ''ABCDEFGHIJKLMNOPQRSTUVWXYZ'') c of
        None \<Rightarrow> c
      | Some u \<Rightarrow> u)"

definition sample_upper :: "string \<Rightarrow> string" where
  "sample_upper s = map sample_upper_char s"

definition sample_pylib :: "real pylib" where
  "sample_pylib =
     \<lparr>float_of_int = (\<lambda>i. Some (real_of_int i)),
      float_of_str = sample_float_of_str,
      float_sub = (\<lambda>x y. x - y),
      float_pos = (\<lambda>x. x > 0),
      float_bool = (\<lambda>x. x \<noteq> 0),
      float_str = (\<lambda>x. ''float''),
      container_str = (\<lambda>v. ''container''),
      str_upper = sample_upper,
      hmac_sha256_hex = (\<lambda>key msg. key @ ''|'' @ msg)\<rparr>"

definition sample_market :: market where
  "sample_market = \<lparr>market_id = ''BTCUSDT'', market_symbol = ''BTC/USDT:USDT''\<rparr>"

definition sample_client :: client where
  "sample_client = \<lparr>apiKey = ''key'', secret = ''secret'', markets = []\<rparr>"

text \<open>The same client once its market table has been loaded.\<close>

definition loaded_client :: client where
  "loaded_client = sample_client\<lparr>markets := [(''BTC/USDT:USDT'', sample_market)]\<rparr>"

text \<open>
  An exchange that answers every request with the given status and decoded body, beside
  a library that knows one market and whose parsers hand the payload back.
\<close>

definition sample_world :: "int \<Rightarrow> real json \<Rightarrow> real world" where
  "sample_world st body =
     \<lparr>time_ms = 1700000000000,
      http = (\<lambda>req. Inr \<lparr>status = st, json_body = Inr body\<rparr>),
      load_markets = (\<lambda>c. Inr (c\<lparr>markets := [(''BTC/USDT:USDT'', sample_market)]\<rparr>)),
      market = (\<lambda>c s. case map_of (markets c) s of None \<Rightarrow> Inl BadSymbol | Some m \<Rightarrow> Inr m),
      parse_ticker = (\<lambda>data m. Inr data),
      parse_order = (\<lambda>data m. Inr data)\<rparr>"

text \<open>
  An exchange, or a gateway before it, whose answer is not JSON, so that
  \<^verbatim>\<open>response.json()\<close> raises.
\<close>

definition html_world :: "int \<Rightarrow> real world" where
  "html_world st =
     \<lparr>time_ms = 1700000000000,
      http = (\<lambda>req. Inr \<lparr>status = st, json_body = Inl ContentTypeError\<rparr>),
      load_markets = (\<lambda>c. Inr (c\<lparr>markets := [(''BTC/USDT:USDT'', sample_market)]\<rparr>)),
      market = (\<lambda>c s. case map_of (markets c) s of None \<Rightarrow> Inl BadSymbol | Some m \<Rightarrow> Inr m),
      parse_ticker = (\<lambda>data m. Inr data),
      parse_order = (\<lambda>data m. Inr data)\<rparr>"

definition usdt_asset :: "real json" where
  "usdt_asset =
     JObj [(''asset'', JStr ''USDT''), (''walletBalance'', JStr ''100.0''),
           (''availableBalance'', JStr ''40.0'')]"

definition btc_asset :: "real json" where
  "btc_asset =
     JObj [(''asset'', JStr ''BTC''), (''walletBalance'', JStr ''40.0''),
           (''availableBalance'', JStr ''100.0'')]"

definition sample_account :: "real json" where
  "sample_account = JObj [(''assets'', JArr [usdt_asset, btc_asset])]"

definition no_symbol_asset :: "real json" where
  "no_symbol_asset = JObj [(''walletBalance'', JStr ''oops''), (''availableBalance'', JStr ''1.0'')]"

definition empty_symbol_asset :: "real json" where
  "empty_symbol_asset = JObj [(''asset'', JStr ''''), (''walletBalance'', JStr ''7.0'')]"

definition gappy_account :: "real json" where
  "gappy_account = JObj [(''assets'', JArr [no_symbol_asset, usdt_asset, empty_symbol_asset, btc_asset])]"

definition usdt_account :: "real json" where
  "usdt_account = JObj [(''assets'', JArr [usdt_asset])]"

definition sample_position :: "string \<Rightarrow> string \<Rightarrow> real json" where
  "sample_position name amt =
     JObj [(''symbol'', JStr name), (''positionAmt'', JStr amt), (''unRealizedProfit'', JStr ''0.0''),
           (''leverage'', JStr ''20''), (''entryPrice'', JStr ''0.0'')]"

definition sample_positions :: "real json list" where
  "sample_positions =
     [sample_position ''BTCUSDT'' ''2.5'', sample_position ''ETHUSDT'' ''-1.0'',
      sample_position ''XRPUSDT'' ''0'']"

definition sample_extras :: "(string \<times> real json) list" where
  "sample_extras =
     [(''timestamp'', JInt 1), (''newClientOrderId'', JStr ''abc''), (''side'', JStr ''SELL'')]"

definition unreadable_account :: "real json" where
  "unreadable_account =
     JObj [(''assets'', JArr [JObj [(''asset'', JStr ''USDT''), (''walletBalance'', JStr ''n/a'')]])]"

definition short_position :: "real json" where
  "short_position = JObj [(''symbol'', JStr ''BTCUSDT''), (''positionAmt'', JStr ''1.0'')]"

definition error_body :: "real json" where
  "error_body = JObj [(''code'', JInt (- 2015)), (''msg'', JStr ''Invalid API-key'')]"

definition order_body :: "real json" where
  "order_body = JObj [(''orderId'', JInt 42), (''status'', JStr ''NEW'')]"

section \<open>Basic facts\<close>

lemma and_then_Inl [simp]: "and_then (Inl e) f = Inl e"
  by (simp add: and_then_def)

lemma and_then_Inr [simp]: "and_then (Inr x) f = f x"
  by (simp add: and_then_def)

lemma and_then_eq_Inr: "and_then r f = Inr y \<longleftrightarrow> (\<exists>x. r = Inr x \<and> f x = Inr y)"
  by (cases r) simp_all

lemma balance_loop_append:
  "balance_loop P r (xs @ ys) = and_then (balance_loop P r xs) (\<lambda>r'. balance_loop P r' ys)"
proof (induction xs arbitrary: r)
  case Nil
  show ?case by simp
next
  case (Cons x xs)
  show ?case
  proof (cases "balance_step P r x")
    case (Inl e)
    then show ?thesis by simp
  next
    case (Inr r1)
    then show ?thesis by (simp add: Cons.IH)
  qed
qed

lemma balance_step_skip:
  assumes "py_get a ''asset'' JNull = Inr c" and "\<not> py_truthy P c"
  shows "balance_step P r a = Inr r"
  using assms by (simp add: balance_step_def)

lemma setitem2_other:
  "setitem2 r k c v = Inr r' \<Longrightarrow> k' \<noteq> k \<Longrightarrow> r' k' = r k'"
  by (auto simp: setitem2_def split: option.splits entry.splits)

lemma balance_step_other:
  assumes "balance_step P r b = Inr r'"
    and "py_get b ''asset'' JNull \<noteq> Inr k"
    and "k \<noteq> JStr ''free''" and "k \<noteq> JStr ''total''"
  shows "r' k = r k"
proof -
  obtain c where c: "py_get b ''asset'' JNull = Inr c"
    using assms(1) by (auto simp: balance_step_def and_then_eq_Inr)
  show ?thesis
  proof (cases "py_truthy P c")
    case False
    then show ?thesis using assms(1) c by (simp add: balance_step_def)
  next
    case True
    have ck: "c \<noteq> k" using c assms(2) by auto
    from assms(1) c True obtain t f r1 where
      r1: "setitem2 (r(c \<mapsto> asset_entry P t f)) (JStr ''free'') c f = Inr r1"
      and r': "setitem2 r1 (JStr ''total'') c t = Inr r'"
      by (auto simp: balance_step_def and_then_eq_Inr split: if_splits)
    have "r' k = r1 k" using setitem2_other [OF r'] assms(4) by simp
    also have "\<dots> = (r(c \<mapsto> asset_entry P t f)) k" using setitem2_other [OF r1] assms(3) by simp
    also have "\<dots> = r k" using ck by simp
    finally show ?thesis .
  qed
qed

lemma balance_loop_other:
  assumes "balance_loop P r ys = Inr r'"
    and "\<forall>b\<in>set ys. py_get b ''asset'' JNull \<noteq> Inr k"
    and "k \<noteq> JStr ''free''" and "k \<noteq> JStr ''total''"
  shows "r' k = r k"
  using assms(1,2)
proof (induction ys arbitrary: r)
  case Nil
  then show ?case by simp
next
  case (Cons b ys)
  from Cons.prems(1) obtain r1 where s: "balance_step P r b = Inr r1"
    and l: "balance_loop P r1 ys = Inr r'"
    by (auto simp: and_then_eq_Inr)
  have "r' k = r1 k" using Cons.IH [OF l] Cons.prems(2) by simp
  also have "r1 k = r k" using balance_step_other [OF s _ assms(3,4)] Cons.prems(2) by simp
  finally show ?case .
qed

lemma setitem2_ok:
  "r k = Some (Amounts m) \<Longrightarrow> setitem2 r k c v = Inr (r(k \<mapsto> Amounts (m(c \<mapsto> v))))"
  by (simp add: setitem2_def)

lemma balance_step_entry:
  assumes "balance_step P r a = Inr r'"
    and "py_get a ''asset'' JNull = Inr k" and "py_truthy P k"
    and "k \<noteq> JStr ''free''" and "k \<noteq> JStr ''total''"
  shows "\<exists>t f. and_then (py_get a ''walletBalance'' (JInt 0)) (py_float P) = Inr t
           \<and> and_then (py_get a ''availableBalance'' (JInt 0)) (py_float P) = Inr f
           \<and> r' k = Some (asset_entry P t f)"
proof -
  from assms(1-3) obtain t f r1 where
    t: "and_then (py_get a ''walletBalance'' (JInt 0)) (py_float P) = Inr t"
    and f: "and_then (py_get a ''availableBalance'' (JInt 0)) (py_float P) = Inr f"
    and r1: "setitem2 (r(k \<mapsto> asset_entry P t f)) (JStr ''free'') k f = Inr r1"
    and r': "setitem2 r1 (JStr ''total'') k t = Inr r'"
    by (auto simp: balance_step_def and_then_eq_Inr split: if_splits)
  have "r' k = r1 k" using setitem2_other [OF r'] assms(5) by simp
  also have "\<dots> = (r(k \<mapsto> asset_entry P t f)) k" using setitem2_other [OF r1] assms(4) by simp
  finally show ?thesis using t f by simp
qed

section \<open>Facts about the sample run\<close>

lemma sample_floats:
  "sample_float_of_str ''100.0'' = Some 100" "sample_float_of_str ''40.0'' = Some 40"
  by (simp_all add: sample_float_of_str_def digit_val_def)

lemma send_sample_world [simp]: "send (sample_world st body) req = Inr (st, body)"
  by (simp add: send_def sample_world_def)

lemma time_sample_world [simp]: "time_ms (sample_world st body) = 1700000000000"
  by (simp add: sample_world_def)

lemma sample_balance_ok:
  "\<exists>res. patched_fetch_balance sample_pylib (sample_world 200 sample_account) sample_client [] = Inr res"
  by (simp add: patched_fetch_balance_def balance_reshape_def sample_account_def
      balance_step_def usdt_asset_def btc_asset_def new_balance_def setitem2_def sample_pylib_def sample_floats)

section \<open>The balance: what each asset's entry holds\<close>

lemma patched_fetch_balance_sent:
  assumes "send W (balance_request P self (time_ms W)) = Inr (st, data)"
  shows "patched_fetch_balance P W self params =
           (if st \<noteq> 200 then Inl (Exception ''Balance fetch failed: '' data)
            else balance_reshape P data)"
  using assms by (simp add: patched_fetch_balance_def)

text \<open>
  Claim C2. In a successful \<^verbatim>\<open>fetch_balance\<close>, the entry of an asset record holds
  free = availableBalance, total = walletBalance and used = walletBalance - availableBalance
  (the float subtraction, whatever its sign: nothing guards against a negative result).
  This is stated for the last record that carries its symbol (a later one would replace
  the entry), and for a symbol that is a non-empty string other than \<^verbatim>\<open>'free'\<close> and
  \<^verbatim>\<open>'total'\<close>, the keys of the two sub-mappings that the loop keeps writing to. A missing
  balance field counts as 0.
\<close>

theorem balance_entry_derivation:
  assumes "patched_fetch_balance P W self params = Inr res"
    and "send W (balance_request P self (time_ms W)) = Inr (st, data)"
    and "py_get data ''assets'' (JArr []) = Inr (JArr (xs @ a # ys))"
    and "py_get a ''asset'' JNull = Inr (JStr c)"
    and "c \<noteq> []" and "c \<noteq> ''free''" and "c \<noteq> ''total''"
    and "\<forall>b\<in>set ys. py_get b ''asset'' JNull \<noteq> Inr (JStr c)"
  shows "\<exists>total' free.
           and_then (py_get a ''walletBalance'' (JInt 0)) (py_float P) = Inr total' \<and>
           and_then (py_get a ''availableBalance'' (JInt 0)) (py_float P) = Inr free \<and>
           res (JStr c) =
             Some (Amounts [JStr ''free'' \<mapsto> free, JStr ''used'' \<mapsto> float_sub P total' free,
                            JStr ''total'' \<mapsto> total'])"
proof -
  have "balance_reshape P data = Inr res"
    using assms(1) patched_fetch_balance_sent [OF assms(2)] by (simp split: if_splits)
  then have "balance_loop P (new_balance data) (xs @ a # ys) = Inr res"
    using assms(3) by (simp add: balance_reshape_def)
  then obtain r1 r2 where "balance_loop P (new_balance data) xs = Inr r1"
    and step: "balance_step P r1 a = Inr r2"
    and rest: "balance_loop P r2 ys = Inr res"
    by (auto simp: balance_loop_append and_then_eq_Inr)
  have keys: "JStr c \<noteq> JStr ''free''" "JStr c \<noteq> JStr ''total''"
    using assms(6,7) by simp_all
  have "py_truthy P (JStr c)" using assms(5) by simp
  from balance_step_entry [OF step assms(4) this keys]
  obtain t f where t: "and_then (py_get a ''walletBalance'' (JInt 0)) (py_float P) = Inr t"
    and f: "and_then (py_get a ''availableBalance'' (JInt 0)) (py_float P) = Inr f"
    and e: "r2 (JStr c) = Some (asset_entry P t f)"
    by blast
  have "res (JStr c) = r2 (JStr c)"
    using balance_loop_other [OF rest assms(8) keys] .
  then show ?thesis using t f e by (auto simp: asset_entry_def)
qed

text \<open>
  The example of the specification, walletBalance 100 and availableBalance 40, gives
  free 40, used 60, total 100; an asset whose available balance exceeds its wallet
  balance gets a negative used amount.
\<close>

theorem balance_entry_derivation_witness:
  "\<exists>res. patched_fetch_balance sample_pylib (sample_world 200 sample_account) sample_client [] = Inr res
     \<and> res (JStr ''USDT'') =
         Some (Amounts [JStr ''free'' \<mapsto> 40, JStr ''used'' \<mapsto> 60, JStr ''total'' \<mapsto> 100])
     \<and> res (JStr ''BTC'') =
         Some (Amounts [JStr ''free'' \<mapsto> 100, JStr ''used'' \<mapsto> - 60, JStr ''total'' \<mapsto> 40])"
proof -
  obtain res where res:
    "patched_fetch_balance sample_pylib (sample_world 200 sample_account) sample_client [] = Inr res"
    using sample_balance_ok by blast
  have sent: "send (sample_world 200 sample_account)
      (balance_request sample_pylib sample_client (time_ms (sample_world 200 sample_account)))
      = Inr (200, sample_account)"
    by simp
  have a1: "py_get sample_account ''assets'' (JArr []) = Inr (JArr ([] @ usdt_asset # [btc_asset]))"
    by (simp add: sample_account_def)
  have a2: "py_get sample_account ''assets'' (JArr []) = Inr (JArr ([usdt_asset] @ btc_asset # []))"
    by (simp add: sample_account_def)
  have u: "res (JStr ''USDT'') =
         Some (Amounts [JStr ''free'' \<mapsto> 40, JStr ''used'' \<mapsto> 60, JStr ''total'' \<mapsto> 100])"
    using balance_entry_derivation [OF res sent a1, of "''USDT''"]
    by (simp add: usdt_asset_def btc_asset_def sample_pylib_def sample_floats)
  have b: "res (JStr ''BTC'') =
         Some (Amounts [JStr ''free'' \<mapsto> 100, JStr ''used'' \<mapsto> - 60, JStr ''total'' \<mapsto> 40])"
    using balance_entry_derivation [OF res sent a2, of "''BTC''"]
    by (simp add: usdt_asset_def btc_asset_def sample_pylib_def sample_floats)
  show ?thesis using res u b by blast
qed

section \<open>The sub-mappings stay dicts of amounts\<close>

lemma has_amounts_new_balance: "has_amounts (new_balance data)"
  by (simp add: has_amounts_def new_balance_def)

lemma has_amountsD:
  assumes "has_amounts r"
  obtains mf mt where "r (JStr ''free'') = Some (Amounts mf)" "r (JStr ''total'') = Some (Amounts mt)"
  using assms by (auto simp: has_amounts_def split: option.splits entry.splits)

lemma has_amounts_upd:
  "has_amounts r \<Longrightarrow> has_amounts (r(k \<mapsto> Amounts m))"
  by (simp add: has_amounts_def)

lemma setitem2_has_amounts:
  assumes "has_amounts r" and "k = JStr ''free'' \<or> k = JStr ''total''"
  shows "\<exists>r'. setitem2 r k c v = Inr r' \<and> has_amounts r'"
proof -
  from assms obtain m where m: "r k = Some (Amounts m)"
    by (auto elim!: has_amountsD)
  have "setitem2 r k c v = Inr (r(k \<mapsto> Amounts (m(c \<mapsto> v))))"
    using m by (rule setitem2_ok)
  moreover have "has_amounts (r(k \<mapsto> Amounts (m(c \<mapsto> v))))"
    using assms(1) by (rule has_amounts_upd)
  ultimately show ?thesis by simp
qed

lemma has_amounts_entry: "has_amounts r \<Longrightarrow> has_amounts (r(c \<mapsto> asset_entry P t f))"
  unfolding asset_entry_def by (rule has_amounts_upd)

lemma setitem2_new_balance_step:
  assumes "has_amounts r"
  shows "\<exists>r1 r2. setitem2 (r(c \<mapsto> asset_entry P t f)) (JStr ''free'') c f = Inr r1
           \<and> setitem2 r1 (JStr ''total'') c t = Inr r2 \<and> has_amounts r2"
proof -
  have h0: "has_amounts (r(c \<mapsto> asset_entry P t f))"
    using assms by (rule has_amounts_entry)
  obtain r1 where r1: "setitem2 (r(c \<mapsto> asset_entry P t f)) (JStr ''free'') c f = Inr r1"
    and h1: "has_amounts r1"
    using setitem2_has_amounts [OF h0, of "JStr ''free''" c f] by auto
  obtain r2 where r2: "setitem2 r1 (JStr ''total'') c t = Inr r2" and h2: "has_amounts r2"
    using setitem2_has_amounts [OF h1, of "JStr ''total''" c t] by auto
  show ?thesis using r1 r2 h2 by simp
qed

lemma balance_step_has_amounts:
  assumes "has_amounts r" and "balance_step P r a = Inr r'"
  shows "has_amounts r'"
proof -
  obtain c where c: "py_get a ''asset'' JNull = Inr c"
    using assms(2) by (auto simp: balance_step_def and_then_eq_Inr)
  show ?thesis
  proof (cases "py_truthy P c")
    case False
    then show ?thesis using assms c by (simp add: balance_step_def)
  next
    case True
    from assms(2) c True obtain t f r1 where
      r1: "setitem2 (r(c \<mapsto> asset_entry P t f)) (JStr ''free'') c f = Inr r1"
      and r': "setitem2 r1 (JStr ''total'') c t = Inr r'"
      by (auto simp: balance_step_def and_then_eq_Inr split: if_splits)
    from setitem2_new_balance_step [OF assms(1), of c P t f] r1 r' show ?thesis by auto
  qed
qed

lemma setitem2_new_balance_loop:
  assumes "balance_loop P (new_balance data) xs = Inr r"
  shows "\<exists>r1 r2. setitem2 (r(c \<mapsto> asset_entry P t f)) (JStr ''free'') c f = Inr r1
           \<and> setitem2 r1 (JStr ''total'') c t = Inr r2"
proof -
  have "has_amounts r0 \<Longrightarrow> balance_loop P r0 xs = Inr r \<Longrightarrow> has_amounts r" for r0
  proof (induction xs arbitrary: r0)
    case Nil
    then show ?case by simp
  next
    case (Cons x xs)
    then show ?case by (auto simp: and_then_eq_Inr dest: balance_step_has_amounts)
  qed
  then have "has_amounts r" using assms has_amounts_new_balance by blast
  from setitem2_new_balance_step [OF this, of c P t f] show ?thesis by auto
qed

section \<open>The balance: records without a symbol\<close>

lemma sample_loop_ok:
  "\<exists>res. balance_loop sample_pylib (new_balance d) [usdt_asset, btc_asset] = Inr res"
  by (simp add: balance_step_def usdt_asset_def btc_asset_def new_balance_def setitem2_def
      sample_pylib_def sample_floats)

text \<open>
  Claim C9. An asset record whose \<^verbatim>\<open>asset\<close> field is missing (\<^verbatim>\<open>asset.get('asset')\<close> is
  \<^verbatim>\<open>None\<close>) or empty (it is \<^verbatim>\<open>''\<close>) is skipped entirely: the loop body leaves the result
  as it is, so the record adds no per-asset entry and nothing to a sub-mapping, its
  balance fields are not even read, and the loop goes on with the records after it: the
  outcome of the loop, and of \<^verbatim>\<open>fetch_balance\<close>, is the one for the list without the
  record.
\<close>

theorem assets_without_symbol_skipped:
  assumes "py_get a ''asset'' JNull = Inr c"
    and "c = JNull \<or> c = JStr []"
  shows "balance_step P result a = Inr result \<and>
         balance_loop P result (xs @ a # ys) = balance_loop P result (xs @ ys) \<and>
         (send W (balance_request P self (time_ms W)) = Inr (200, data) \<and>
          py_get data ''assets'' (JArr []) = Inr (JArr (xs @ a # ys)) \<longrightarrow>
            patched_fetch_balance P W self params = balance_loop P (new_balance data) (xs @ ys))"
proof -
  have falsy: "\<not> py_truthy P c" using assms(2) by auto
  have step: "balance_step P r a = Inr r" for r
    using assms(1) falsy by (rule balance_step_skip)
  have loop: "balance_loop P r (xs @ a # ys) = balance_loop P r (xs @ ys)" for r
  proof -
    have "balance_loop P r (xs @ a # ys)
            = and_then (balance_loop P r xs) (\<lambda>r'. balance_loop P r' (a # ys))"
      by (rule balance_loop_append)
    also have "\<dots> = and_then (balance_loop P r xs) (\<lambda>r'. balance_loop P r' ys)"
      by (simp add: step)
    also have "\<dots> = balance_loop P r (xs @ ys)"
      by (rule balance_loop_append [symmetric])
    finally show ?thesis .
  qed
  have top: "patched_fetch_balance P W self params = balance_loop P (new_balance data) (xs @ ys)"
    if sent: "send W (balance_request P self (time_ms W)) = Inr (200, data)"
      and assets: "py_get data ''assets'' (JArr []) = Inr (JArr (xs @ a # ys))"
  proof -
    have "patched_fetch_balance P W self params = balance_reshape P data"
      using patched_fetch_balance_sent [OF sent] by simp
    also have "\<dots> = balance_loop P (new_balance data) (xs @ a # ys)"
      using assets by (simp add: balance_reshape_def)
    finally show ?thesis by (simp only: loop)
  qed
  show ?thesis using step loop top by blast
qed

text \<open>
  A response with a record that has no \<^verbatim>\<open>asset\<close> field and an unreadable balance, and a
  record with an empty symbol: the call succeeds and returns what the two other records
  give.
\<close>

theorem assets_without_symbol_skipped_witness:
  "patched_fetch_balance sample_pylib (sample_world 200 gappy_account) sample_client []
     = balance_loop sample_pylib (new_balance gappy_account) [usdt_asset, btc_asset]
   \<and> (\<exists>res. patched_fetch_balance sample_pylib (sample_world 200 gappy_account) sample_client []
          = Inr res)"
proof -
  let ?W = "sample_world 200 gappy_account"
  have missing: "py_get no_symbol_asset ''asset'' JNull = Inr (JNull :: real json)"
    by (simp add: no_symbol_asset_def)
  have empty: "py_get empty_symbol_asset ''asset'' JNull = Inr (JStr [])"
    by (simp add: empty_symbol_asset_def)
  have sent: "send ?W (balance_request sample_pylib sample_client (time_ms ?W))
                = Inr (200, gappy_account)"
    by simp
  have assets: "py_get gappy_account ''assets'' (JArr [])
      = Inr (JArr ([] @ no_symbol_asset # [usdt_asset, empty_symbol_asset, btc_asset]))"
    by (simp add: gappy_account_def)
  have "patched_fetch_balance sample_pylib ?W sample_client []
          = balance_loop sample_pylib (new_balance gappy_account)
              ([] @ [usdt_asset, empty_symbol_asset, btc_asset])"
    using assets_without_symbol_skipped [OF missing, of sample_pylib _ "[]"
        "[usdt_asset, empty_symbol_asset, btc_asset]" ?W sample_client gappy_account "[]"]
      sent assets
    by blast
  also have "\<dots> = balance_loop sample_pylib (new_balance gappy_account)
                      ([usdt_asset] @ empty_symbol_asset # [btc_asset])"
    by simp
  also have "\<dots> = balance_loop sample_pylib (new_balance gappy_account) ([usdt_asset] @ [btc_asset])"
    using assets_without_symbol_skipped [OF empty, of sample_pylib "new_balance gappy_account"
        "[usdt_asset]" "[btc_asset]"]
    by blast
  finally have eq: "patched_fetch_balance sample_pylib ?W sample_client []
          = balance_loop sample_pylib (new_balance gappy_account) [usdt_asset, btc_asset]"
    by simp
  then show ?thesis using sample_loop_ok [of gappy_account] by simp
qed

section \<open>The balance: the three sub-mappings\<close>

lemma balance_reshape_loop:
  assumes "py_get data ''assets'' (JArr []) = Inr (JArr items)"
  shows "balance_reshape P data = balance_loop P (new_balance data) items"
  using assms by (simp add: balance_reshape_def)

lemma usdt_step:
  "balance_step sample_pylib (new_balance d) usdt_asset =
     Inr ((new_balance d)
       (JStr ''USDT'' \<mapsto> asset_entry sample_pylib 100 40,
        JStr ''free'' \<mapsto> Amounts [JStr ''USDT'' \<mapsto> 40],
        JStr ''total'' \<mapsto> Amounts [JStr ''USDT'' \<mapsto> 100]))"
   by (simp add: balance_step_def usdt_asset_def new_balance_def setitem2_def sample_pylib_def
       sample_floats)

text \<open>
  Claim C1 says that the sub-mappings \<^verbatim>\<open>free\<close>, \<^verbatim>\<open>used\<close> and \<^verbatim>\<open>total\<close> of a successful
  result are each keyed by every asset symbol of the response. The loop writes
  \<^verbatim>\<open>result['free'][currency]\<close> and \<^verbatim>\<open>result['total'][currency]\<close> and never
  \<^verbatim>\<open>result['used'][currency]\<close>: whatever the response lists, the value under \<^verbatim>\<open>'used'\<close>
  is the empty dict it was created as (unless an asset is itself called \<^verbatim>\<open>used\<close>, whose
  entry then replaces it).
\<close>

theorem used_submapping_never_filled:
  assumes "patched_fetch_balance P W self params = Inr res"
    and "send W (balance_request P self (time_ms W)) = Inr (st, data)"
    and "py_get data ''assets'' (JArr []) = Inr (JArr items)"
    and "\<forall>b\<in>set items. py_get b ''asset'' JNull \<noteq> Inr (JStr ''used'')"
  shows "res (JStr ''used'') = Some (Amounts Map.empty)"
proof -
  have "balance_reshape P data = Inr res"
    using assms(1) patched_fetch_balance_sent [OF assms(2)] by (simp split: if_splits)
  then have loop: "balance_loop P (new_balance data) items = Inr res"
    using balance_reshape_loop [OF assms(3)] by simp
  have "res (JStr ''used'') = new_balance data (JStr ''used'')"
    using balance_loop_other [OF loop assms(4)] by simp
  then show ?thesis by (simp add: new_balance_def)
qed

text \<open>
  The response with the one asset USDT (wallet balance 100, available balance 40): the
  sub-mappings \<^verbatim>\<open>free\<close> and \<^verbatim>\<open>total\<close> have the key USDT, \<^verbatim>\<open>used\<close> has none.
\<close>

theorem used_submapping_never_filled_witness:
  "\<exists>res. patched_fetch_balance sample_pylib (sample_world 200 usdt_account) sample_client [] = Inr res
     \<and> res (JStr ''free'') = Some (Amounts [JStr ''USDT'' \<mapsto> 40])
     \<and> res (JStr ''total'') = Some (Amounts [JStr ''USDT'' \<mapsto> 100])
     \<and> res (JStr ''used'') = Some (Amounts Map.empty)
     \<and> amount_at res (JStr ''used'') (JStr ''USDT'') = None
     \<and> res (JStr ''info'') = Some (Info usdt_account)"
proof -
  let ?W = "sample_world 200 usdt_account"
  let ?res = "(new_balance usdt_account)
       (JStr ''USDT'' \<mapsto> asset_entry sample_pylib 100 40,
        JStr ''free'' \<mapsto> Amounts [JStr ''USDT'' \<mapsto> 40],
        JStr ''total'' \<mapsto> Amounts [JStr ''USDT'' \<mapsto> 100])"
  have sent: "send ?W (balance_request sample_pylib sample_client (time_ms ?W)) = Inr (200, usdt_account)"
    by simp
  have assets: "py_get usdt_account ''assets'' (JArr []) = Inr (JArr [usdt_asset])"
    by (simp add: usdt_account_def)
  have res: "patched_fetch_balance sample_pylib ?W sample_client [] = Inr ?res"
    using patched_fetch_balance_sent [OF sent] balance_reshape_loop [OF assets]
    by (simp add: usdt_step)
  have no_used: "\<forall>b\<in>set [usdt_asset]. py_get b ''asset'' JNull \<noteq> Inr (JStr ''used'')"
    by (simp add: usdt_asset_def)
  have used: "?res (JStr ''used'') = Some (Amounts Map.empty)"
    using used_submapping_never_filled [OF res sent assets no_used] .
  have rest: "?res (JStr ''free'') = Some (Amounts [JStr ''USDT'' \<mapsto> 40])"
    "?res (JStr ''total'') = Some (Amounts [JStr ''USDT'' \<mapsto> 100])"
    "?res (JStr ''info'') = Some (Info usdt_account)"
    by (simp_all add: new_balance_def)
  have "amount_at ?res (JStr ''used'') (JStr ''USDT'') = None"
    using used by (simp only: amount_at_def) simp
  with res used rest show ?thesis by blast
qed

section \<open>The positions: one record per item\<close>

lemma patched_fetch_positions_sent:
  assumes "send W (positions_request P self (time_ms W)) = Inr (st, data)"
  shows "patched_fetch_positions P W self symbols params =
           (if st \<noteq> 200 then Inl (Exception ''Positions fetch failed: '' data)
            else positions_reshape P data)"
  using assms by (simp add: patched_fetch_positions_def)

lemma positions_loop_records:
  assumes "positions_loop P acc items = Inr res"
  shows "\<exists>recs. res = acc @ recs \<and> length recs = length items \<and>
           (\<forall>i<length items. position_record P (items ! i) = Inr (recs ! i))"
  using assms
proof (induction items arbitrary: acc)
  case Nil
  then show ?case by simp
next
  case (Cons item items)
  from Cons.prems obtain r where r: "position_record P item = Inr r"
    and rest: "positions_loop P (acc @ [r]) items = Inr res"
    by (auto simp: and_then_eq_Inr)
  from Cons.IH [OF rest] obtain recs where recs: "res = (acc @ [r]) @ recs"
    "length recs = length items"
    "\<forall>i<length items. position_record P (items ! i) = Inr (recs ! i)"
    by blast
  have "\<forall>i<length (item # items). position_record P ((item # items) ! i) = Inr ((r # recs) ! i)"
    using r recs(3) by (auto simp: nth_Cons split: nat.splits)
  moreover have "res = acc @ (r # recs)" "length (r # recs) = length (item # items)"
    using recs(1,2) by simp_all
  ultimately show ?case by blast
qed

lemma position_record_fields:
  assumes "position_record P item = Inr r"
  shows "\<exists>amt. and_then (py_getitem item ''positionAmt'') (py_float P) = Inr amt \<and>
           py_getitem r ''info'' = Inr item \<and>
           py_getitem r ''contracts'' = Inr (JFloat amt) \<and>
           py_getitem r ''side'' = Inr (JStr (if float_pos P amt then ''long'' else ''short''))"
  using assms by (auto simp: position_record_def and_then_eq_Inr)

lemma sample_amounts:
  "sample_float_of_str ''2.5'' = Some (5 / 2)" "sample_float_of_str ''-1.0'' = Some (- 1)"
  "sample_float_of_str ''0'' = Some 0" "sample_float_of_str ''0.0'' = Some 0"
  "sample_float_of_str ''20'' = Some 20"
  by (simp_all add: sample_float_of_str_def digit_val_def)

lemma sample_position_record:
  "\<exists>r. position_record sample_pylib (sample_position name amt) = Inr r"
  if "sample_float_of_str amt = Some x"
  using that by (simp add: position_record_def sample_position_def sample_pylib_def sample_amounts)

lemma sample_positions_ok:
  "\<exists>res. patched_fetch_positions sample_pylib (sample_world 200 (JArr sample_positions))
           sample_client JNull [] = Inr res"
proof -
  obtain r1 r2 r3 where
    "position_record sample_pylib (sample_position ''BTCUSDT'' ''2.5'') = Inr r1"
    "position_record sample_pylib (sample_position ''ETHUSDT'' ''-1.0'') = Inr r2"
    "position_record sample_pylib (sample_position ''XRPUSDT'' ''0'') = Inr r3"
    using sample_position_record sample_amounts(1-3) by metis
  then show ?thesis
    by (simp add: patched_fetch_positions_def positions_reshape_def sample_positions_def)
qed

text \<open>
  Claim C3. When \<^verbatim>\<open>fetch_positions\<close> succeeds on a response that is a list, the result
  has one record per item of the list, in the same order and whatever the held quantity:
  the record's \<^verbatim>\<open>info\<close> is the item, its \<^verbatim>\<open>contracts\<close> is \<^verbatim>\<open>float(item['positionAmt'])\<close>, and
  its \<^verbatim>\<open>side\<close> is \<^verbatim>\<open>'long'\<close> when that quantity is strictly greater than 0 and
  \<^verbatim>\<open>'short'\<close> otherwise, so a quantity of 0 gives \<^verbatim>\<open>'short'\<close>.
\<close>

theorem positions_one_record_per_item:
  assumes "patched_fetch_positions P W self symbols params = Inr res"
    and "send W (positions_request P self (time_ms W)) = Inr (st, JArr items)"
  shows "length res = length items \<and>
         (\<forall>i<length items. \<exists>amt.
            and_then (py_getitem (items ! i) ''positionAmt'') (py_float P) = Inr amt \<and>
            py_getitem (res ! i) ''info'' = Inr (items ! i) \<and>
            py_getitem (res ! i) ''contracts'' = Inr (JFloat amt) \<and>
            py_getitem (res ! i) ''side'' = Inr (JStr (if float_pos P amt then ''long'' else ''short'')))"
proof -
  have "positions_reshape P (JArr items) = Inr res"
    using assms(1) patched_fetch_positions_sent [OF assms(2)] by (simp split: if_splits)
  then have "positions_loop P [] items = Inr res"
    by (simp add: positions_reshape_def)
  from positions_loop_records [OF this]
  have len: "length res = length items"
    and recs: "\<forall>i<length items. position_record P (items ! i) = Inr (res ! i)"
    by auto
  show ?thesis
  proof (intro conjI allI impI)
    show "length res = length items" by (rule len)
  next
    fix i assume "i < length items"
    then have "position_record P (items ! i) = Inr (res ! i)" using recs by simp
    then show "\<exists>amt.
            and_then (py_getitem (items ! i) ''positionAmt'') (py_float P) = Inr amt \<and>
            py_getitem (res ! i) ''info'' = Inr (items ! i) \<and>
            py_getitem (res ! i) ''contracts'' = Inr (JFloat amt) \<and>
            py_getitem (res ! i) ''side'' = Inr (JStr (if float_pos P amt then ''long'' else ''short''))"
      by (rule position_record_fields)
  qed
qed

text \<open>
  Three positions with the quantities 2.5, -1.0 and 0: three records, with the sides
  long, short and short.
\<close>

theorem positions_one_record_per_item_witness:
  "\<exists>res. patched_fetch_positions sample_pylib (sample_world 200 (JArr sample_positions))
           sample_client JNull [] = Inr res
     \<and> length res = 3
     \<and> py_getitem (res ! 0) ''side'' = Inr (JStr ''long'')
     \<and> py_getitem (res ! 1) ''side'' = Inr (JStr ''short'')
     \<and> py_getitem (res ! 2) ''side'' = Inr (JStr ''short'')
     \<and> py_getitem (res ! 2) ''contracts'' = Inr (JFloat 0)"
proof -
  let ?W = "sample_world 200 (JArr sample_positions)"
  obtain res where res:
    "patched_fetch_positions sample_pylib ?W sample_client JNull [] = Inr res"
    using sample_positions_ok by blast
  have sent: "send ?W (positions_request sample_pylib sample_client (time_ms ?W))
                = Inr (200, JArr sample_positions)"
    by simp
  note main = positions_one_record_per_item [OF res sent]
  have len: "length res = 3" using main by (simp add: sample_positions_def)
  have amts:
    "and_then (py_getitem (sample_positions ! 0) ''positionAmt'') (py_float sample_pylib) = Inr (5 / 2)"
    "and_then (py_getitem (sample_positions ! 1) ''positionAmt'') (py_float sample_pylib) = Inr (- 1)"
    "and_then (py_getitem (sample_positions ! 2) ''positionAmt'') (py_float sample_pylib) = Inr 0"
    by (simp_all add: sample_positions_def sample_position_def sample_pylib_def sample_amounts)
  have pos: "float_pos sample_pylib x = (x > 0)" for x
    by (simp add: sample_pylib_def)
  have l3: "(0::nat) < length sample_positions" "(1::nat) < length sample_positions"
    "(2::nat) < length sample_positions"
    by (simp_all add: sample_positions_def)
  have s0: "py_getitem (res ! 0) ''side'' = Inr (JStr ''long'')"
    using main l3(1) amts(1) by (auto simp: pos)
  have s1: "py_getitem (res ! 1) ''side'' = Inr (JStr ''short'')"
    using main l3(2) amts(2) by (auto simp: pos)
  have s2: "py_getitem (res ! 2) ''side'' = Inr (JStr ''short'')"
    "py_getitem (res ! 2) ''contracts'' = Inr (JFloat 0)"
    using main l3(3) amts(3) by (auto simp: pos)
  show ?thesis using res len s0 s1 s2 by blast
qed

section \<open>The order: what the parameter set holds\<close>

lemma map_of_dict_setitem: "map_of (dict_setitem d k v) = (map_of d)(k \<mapsto> v)"
  by (induction d) (auto simp: fun_eq_iff)

lemma dict_setitem_new: "k \<notin> set (dict_keys d) \<Longrightarrow> dict_setitem d k v = d @ [(k, v)]"
  by (induction d) (auto simp: dict_keys_def)

lemma dict_keys_map_of: "k \<in> set (dict_keys d) \<longleftrightarrow> map_of d k \<noteq> None"
  by (induction d) (auto simp: dict_keys_def)

lemma merge_params_step:
  "merge_params d (kv # rest) =
     merge_params (if map_of d (fst kv) = None then d @ [kv] else d) rest"
proof (cases "map_of d (fst kv) = None")
  case True
  then have "fst kv \<notin> set (dict_keys d)" by (simp add: dict_keys_map_of)
  then show ?thesis using True dict_setitem_new [of "fst kv" d "snd kv"] by simp
next
  case False
  then have "fst kv \<in> set (dict_keys d)" by (simp add: dict_keys_map_of)
  then show ?thesis using False by auto
qed

lemma map_of_merge_params: "map_of (merge_params d ps) = map_of ps ++ map_of d"
proof (induction ps arbitrary: d)
  case Nil
  show ?case by simp
next
  case (Cons kv ps)
  show ?case
  proof (cases "map_of d (fst kv) = None")
    case True
    have "map_of (merge_params d (kv # ps)) = map_of ps ++ map_of (d @ [kv])"
      using True by (simp add: merge_params_step Cons.IH del: merge_params.simps)
    also have "\<dots> = map_of (kv # ps) ++ map_of d"
      using True by (cases kv) (auto simp: fun_eq_iff map_add_def split: option.splits)
    finally show ?thesis .
  next
    case False
    have "map_of (merge_params d (kv # ps)) = map_of ps ++ map_of d"
      using False by (auto simp add: merge_params_step Cons.IH simp del: merge_params.simps)
    also have "\<dots> = map_of (kv # ps) ++ map_of d"
      using False by (cases kv) (auto simp: fun_eq_iff map_add_def split: option.splits)
    finally show ?thesis .
  qed
qed

lemma merge_params_prefix: "\<exists>extra. merge_params d ps = d @ extra"
proof (induction ps arbitrary: d)
  case Nil
  show ?case by simp
next
  case (Cons kv ps)
  show ?case
  proof (cases "map_of d (fst kv) = None")
    case True
    obtain extra where "merge_params (d @ [kv]) ps = (d @ [kv]) @ extra"
      using Cons.IH by blast
    then have "merge_params d (kv # ps) = d @ (kv # extra)"
      using True by (simp add: merge_params_step del: merge_params.simps)
    then show ?thesis by blast
  next
    case False
    then show ?thesis using Cons.IH [of d] by (auto simp add: merge_params_step simp del: merge_params.simps)
  qed
qed

lemma add_price_eq:
  "add_price P (required_params P m order_type side amount timestamp) order_type price params =
     required_params P m order_type side amount timestamp @
       (if py_truthy P price \<and> str_upper P order_type = ''LIMIT''
        then [(''price'', JStr (py_str P price)),
              (''timeInForce'', dict_get params ''timeInForce'' (JStr ''GTC''))]
        else [])"
  by (simp add: add_price_def required_params_def)

lemma sample_strs:
  "str_int 2 = ''2''" "str_int 50000 = ''50000''"
  "str_upper sample_pylib ''limit'' = ''LIMIT''" "str_upper sample_pylib ''buy'' = ''BUY''"
  "str_upper sample_pylib ''market'' = ''MARKET''"
  by (simp_all add: str_int_def str_nat.simps digit_char_def sample_pylib_def sample_upper_def
      sample_upper_char_def)

lemma sample_order_params:
  "order_params sample_pylib sample_market ''limit'' ''buy'' (JInt 2) (JInt 50000) sample_extras 17 =
     [(''symbol'', JStr ''BTCUSDT''), (''side'', JStr ''BUY''), (''type'', JStr ''LIMIT''),
      (''quantity'', JStr ''2''), (''timestamp'', JInt 17), (''recvWindow'', JInt 60000),
      (''price'', JStr ''50000''), (''timeInForce'', JStr ''GTC''),
      (''newClientOrderId'', JStr ''abc'')]"
  by (simp add: order_params_def add_price_def required_params_def sample_strs sample_extras_def
      sample_market_def dict_keys_def dict_get_def)

text \<open>
  Claim C4. In \<^verbatim>\<open>create_order\<close> the caller's extra parameters never override a required
  one. With \<open>built\<close> the parameter set after lines 151 to 162 (its keys are \<^verbatim>\<open>symbol\<close>,
  \<^verbatim>\<open>side\<close>, \<^verbatim>\<open>type\<close>, \<^verbatim>\<open>quantity\<close>, \<^verbatim>\<open>timestamp\<close>, \<^verbatim>\<open>recvWindow\<close>, and \<^verbatim>\<open>price\<close> and
  \<^verbatim>\<open>timeInForce\<close> when those were set) and \<open>signed\<close> the set that is encoded and signed:
  every key of \<open>built\<close> has in \<open>signed\<close> the value it has in \<open>built\<close>, whatever the
  caller supplied under it; a key that is not in \<open>built\<close> has the caller's value, if any;
  and \<open>signed\<close> is \<open>built\<close> followed by the merged entries.
\<close>

theorem create_order_required_wins:
  assumes "built = add_price P (required_params P m order_type side amount timestamp)
                     order_type price params"
    and "signed = order_params P m order_type side amount price params timestamp"
  shows "(\<forall>k v. map_of built k = Some v \<longrightarrow> map_of signed k = Some v) \<and>
         (\<forall>k. map_of built k = None \<longrightarrow> map_of signed k = map_of params k) \<and>
         (\<exists>extra. signed = built @ extra) \<and>
         dict_keys built =
           [''symbol'', ''side'', ''type'', ''quantity'', ''timestamp'', ''recvWindow''] @
           (if py_truthy P price \<and> str_upper P order_type = ''LIMIT''
            then [''price'', ''timeInForce''] else [])"
proof -
  have signed: "signed = merge_params built params"
    using assms by (simp add: order_params_def)
  have m: "map_of signed = map_of params ++ map_of built"
    unfolding signed by (rule map_of_merge_params)
  have 1: "\<forall>k v. map_of built k = Some v \<longrightarrow> map_of signed k = Some v"
    by (simp add: m map_add_def)
  have 2: "\<forall>k. map_of built k = None \<longrightarrow> map_of signed k = map_of params k"
    by (simp add: m map_add_def)
  have 3: "\<exists>extra. signed = built @ extra"
    unfolding signed by (rule merge_params_prefix)
  have 4: "dict_keys built =
           [''symbol'', ''side'', ''type'', ''quantity'', ''timestamp'', ''recvWindow''] @
           (if py_truthy P price \<and> str_upper P order_type = ''LIMIT''
            then [''price'', ''timeInForce''] else [])"
    unfolding assms(1) add_price_eq by (simp add: dict_keys_def required_params_def)
  show ?thesis using 1 2 3 4 by blast
qed

text \<open>
  A caller who passes \<^verbatim>\<open>timestamp\<close>, \<^verbatim>\<open>side\<close> and \<^verbatim>\<open>newClientOrderId\<close> as extras: the first
  two keep the required values, the third is merged.
\<close>

theorem create_order_required_wins_witness:
  "map_of (order_params sample_pylib sample_market ''limit'' ''buy'' (JInt 2) (JInt 50000)
             sample_extras 17) ''timestamp'' = Some (JInt 17)
   \<and> map_of (order_params sample_pylib sample_market ''limit'' ''buy'' (JInt 2) (JInt 50000)
             sample_extras 17) ''side'' = Some (JStr ''BUY'')
   \<and> map_of (order_params sample_pylib sample_market ''limit'' ''buy'' (JInt 2) (JInt 50000)
             sample_extras 17) ''newClientOrderId'' = Some (JStr ''abc'')"
proof -
  let ?built = "add_price sample_pylib
      (required_params sample_pylib sample_market ''limit'' ''buy'' (JInt 2) 17) ''limit''
      (JInt 50000) sample_extras"
  let ?signed = "order_params sample_pylib sample_market ''limit'' ''buy'' (JInt 2) (JInt 50000)
      sample_extras 17"
  note main = create_order_required_wins [where built = ?built and signed = ?signed, OF refl refl]
  have b: "map_of ?built ''timestamp'' = Some (JInt 17)"
    "map_of ?built ''side'' = Some (JStr ''BUY'')"
    "map_of ?built ''newClientOrderId'' = None"
    unfolding add_price_eq by (simp_all add: required_params_def sample_strs)
  have e: "map_of sample_extras ''newClientOrderId'' = Some (JStr ''abc'')"
    by (simp add: sample_extras_def)
  show ?thesis using main b e by simp
qed

text \<open>
  Claim C7. The parameter set of \<^verbatim>\<open>create_order\<close>, as built by lines 151 to 162 and as
  signed after the merge of the extras, always holds the resolved market identifier, the
  upper-cased side and type, the stringified quantity, the timestamp and the receive
  window. When a price is supplied (a price that Python takes as true) and the upper-cased
  type is LIMIT, it holds the stringified price and a time in force, the caller's
  \<^verbatim>\<open>timeInForce\<close> if there is one and \<^verbatim>\<open>GTC\<close> if not. Otherwise the set as built holds
  neither key, and the signed set holds one only if the caller's own extras bring it.
\<close>

theorem create_order_parameter_set:
  assumes "built = add_price P (required_params P m order_type side amount timestamp)
                     order_type price params"
    and "signed = order_params P m order_type side amount price params timestamp"
    and "d = built \<or> d = signed"
  shows "map_of d ''symbol'' = Some (JStr (market_id m)) \<and>
         map_of d ''side'' = Some (JStr (str_upper P side)) \<and>
         map_of d ''type'' = Some (JStr (str_upper P order_type)) \<and>
         map_of d ''quantity'' = Some (JStr (py_str P amount)) \<and>
         map_of d ''timestamp'' = Some (JInt timestamp) \<and>
         map_of d ''recvWindow'' = Some (JInt 60000) \<and>
         (if py_truthy P price \<and> str_upper P order_type = ''LIMIT''
          then map_of d ''price'' = Some (JStr (py_str P price)) \<and>
               map_of d ''timeInForce'' =
                 Some (case map_of params ''timeInForce'' of None \<Rightarrow> JStr ''GTC'' | Some v \<Rightarrow> v)
          else map_of built ''price'' = None \<and> map_of built ''timeInForce'' = None \<and>
               map_of signed ''price'' = map_of params ''price'' \<and>
               map_of signed ''timeInForce'' = map_of params ''timeInForce'')"
proof -
  have signed: "map_of signed = map_of params ++ map_of built"
    using assms(1,2) by (simp add: order_params_def map_of_merge_params)
  have keep: "map_of d k = Some v" if "map_of built k = Some v" for k v
    using assms(3) that by (auto simp: signed map_add_def)
  have built: "built = required_params P m order_type side amount timestamp @
       (if py_truthy P price \<and> str_upper P order_type = ''LIMIT''
        then [(''price'', JStr (py_str P price)),
              (''timeInForce'', dict_get params ''timeInForce'' (JStr ''GTC''))]
        else [])"
    unfolding assms(1) by (rule add_price_eq)
  have six: "map_of built ''symbol'' = Some (JStr (market_id m))"
    "map_of built ''side'' = Some (JStr (str_upper P side))"
    "map_of built ''type'' = Some (JStr (str_upper P order_type))"
    "map_of built ''quantity'' = Some (JStr (py_str P amount))"
    "map_of built ''timestamp'' = Some (JInt timestamp)"
    "map_of built ''recvWindow'' = Some (JInt 60000)"
    by (simp_all add: built required_params_def)
  show ?thesis
  proof (cases "py_truthy P price \<and> str_upper P order_type = ''LIMIT''")
    case True
    have "map_of built ''price'' = Some (JStr (py_str P price))"
      "map_of built ''timeInForce'' =
         Some (case map_of params ''timeInForce'' of None \<Rightarrow> JStr ''GTC'' | Some v \<Rightarrow> v)"
      using True by (simp_all add: built required_params_def dict_get_def)
    then show ?thesis using True six by (simp add: keep)
  next
    case False
    have none: "map_of built ''price'' = None" "map_of built ''timeInForce'' = None"
      using False by (auto simp add: built required_params_def)
    then have "map_of signed ''price'' = map_of params ''price''"
      "map_of signed ''timeInForce'' = map_of params ''timeInForce''"
      by (simp_all add: signed map_add_def)
    moreover have "(py_truthy P price \<and> str_upper P order_type = ''LIMIT'') = False"
      using False by simp
    ultimately show ?thesis using six none by (simp only: if_False keep simp_thms)
  qed
qed

text \<open>
  A limit order with a price of 50000: the price and \<^verbatim>\<open>GTC\<close> are in the set, a caller's
  \<^verbatim>\<open>IOC\<close> is honoured; the same call with the type \<^verbatim>\<open>market\<close> has no price.
\<close>

theorem create_order_parameter_set_witness:
  "map_of (order_params sample_pylib sample_market ''limit'' ''buy'' (JInt 2) (JInt 50000)
             sample_extras 17) ''price'' = Some (JStr ''50000'')
   \<and> map_of (order_params sample_pylib sample_market ''limit'' ''buy'' (JInt 2) (JInt 50000)
             sample_extras 17) ''timeInForce'' = Some (JStr ''GTC'')
   \<and> map_of (order_params sample_pylib sample_market ''limit'' ''buy'' (JInt 2) (JInt 50000)
             [(''timeInForce'', JStr ''IOC'')] 17) ''timeInForce'' = Some (JStr ''IOC'')
   \<and> map_of (order_params sample_pylib sample_market ''limit'' ''buy'' (JInt 2) (JInt 50000)
             sample_extras 17) ''type'' = Some (JStr ''LIMIT'')
   \<and> map_of (order_params sample_pylib sample_market ''market'' ''buy'' (JInt 2) (JInt 50000)
             sample_extras 17) ''price'' = None"
proof -
  have cond: "py_truthy sample_pylib (JInt 50000)" by simp
  note limit = create_order_parameter_set [where P = sample_pylib and m = sample_market
      and order_type = "''limit''" and side = "''buy''" and amount = "JInt 2" and timestamp = 17
      and price = "JInt 50000" and params = "sample_extras", OF refl refl disjI2]
  note ioc = create_order_parameter_set [where P = sample_pylib and m = sample_market
      and order_type = "''limit''" and side = "''buy''" and amount = "JInt 2" and timestamp = 17
      and price = "JInt 50000" and params = "[(''timeInForce'', JStr ''IOC'')]", OF refl refl disjI2]
  note market = create_order_parameter_set [where P = sample_pylib and m = sample_market
      and order_type = "''market''" and side = "''buy''" and amount = "JInt 2" and timestamp = 17
      and price = "JInt 50000" and params = "sample_extras", OF refl refl disjI2]
  have 1: "map_of (order_params sample_pylib sample_market ''limit'' ''buy'' (JInt 2) (JInt 50000)
             sample_extras 17) ''price'' = Some (JStr ''50000'')"
    "map_of (order_params sample_pylib sample_market ''limit'' ''buy'' (JInt 2) (JInt 50000)
             sample_extras 17) ''timeInForce'' = Some (JStr ''GTC'')"
    "map_of (order_params sample_pylib sample_market ''limit'' ''buy'' (JInt 2) (JInt 50000)
             sample_extras 17) ''type'' = Some (JStr ''LIMIT'')"
    using limit by (simp_all add: sample_strs sample_extras_def)
  have 2: "map_of (order_params sample_pylib sample_market ''limit'' ''buy'' (JInt 2) (JInt 50000)
             [(''timeInForce'', JStr ''IOC'')] 17) ''timeInForce'' = Some (JStr ''IOC'')"
    using ioc by (simp add: sample_strs)
  have 3: "map_of (order_params sample_pylib sample_market ''market'' ''buy'' (JInt 2) (JInt 50000)
             sample_extras 17) ''price'' = None"
    using market by (simp add: sample_strs sample_extras_def)
  show ?thesis using 1 2 3 by simp
qed

text \<open>
  Claim C10. A price that Python takes as false (\<^verbatim>\<open>None\<close>, \<^verbatim>\<open>0\<close>, \<^verbatim>\<open>0.0\<close>) is treated as
  absent, also when the upper-cased type is LIMIT: the conditional step adds nothing to
  the parameter set, the signed set is the one of the same call without a price, and it
  has a \<^verbatim>\<open>price\<close> or a \<^verbatim>\<open>timeInForce\<close> entry only if the caller's extras hold one.
\<close>

theorem falsy_price_treated_as_absent:
  assumes "\<not> py_truthy P price"
  shows "add_price P d order_type price params = d \<and>
         order_params P m order_type side amount price params timestamp =
           order_params P m order_type side amount JNull params timestamp \<and>
         map_of (order_params P m order_type side amount price params timestamp) ''price'' =
           map_of params ''price'' \<and>
         map_of (order_params P m order_type side amount price params timestamp) ''timeInForce'' =
           map_of params ''timeInForce''"
proof -
  have a: "add_price P d' order_type price params = d'" for d'
    using assms by (simp add: add_price_def)
  have n: "add_price P d' order_type JNull params = d'" for d'
    by (simp add: add_price_def)
  have o: "order_params P m order_type side amount price params timestamp =
             merge_params (required_params P m order_type side amount timestamp) params"
    by (simp add: order_params_def a)
  have "map_of (order_params P m order_type side amount price params timestamp) k = map_of params k"
    if "k = ''price'' \<or> k = ''timeInForce''" for k
    using that by (auto simp: o map_of_merge_params map_add_def required_params_def)
  then show ?thesis using a by (simp add: order_params_def n)
qed

text \<open>
  A limit order with the price 0, and one with the price 0.0: the signed set has the six
  required parameters and nothing else.
\<close>

theorem falsy_price_treated_as_absent_witness:
  "order_params sample_pylib sample_market ''limit'' ''buy'' (JInt 2) (JInt 0) [] 17 =
     [(''symbol'', JStr ''BTCUSDT''), (''side'', JStr ''BUY''), (''type'', JStr ''LIMIT''),
      (''quantity'', JStr ''2''), (''timestamp'', JInt 17), (''recvWindow'', JInt 60000)]
   \<and> order_params sample_pylib sample_market ''limit'' ''buy'' (JInt 2) (JFloat 0) [] 17 =
     [(''symbol'', JStr ''BTCUSDT''), (''side'', JStr ''BUY''), (''type'', JStr ''LIMIT''),
      (''quantity'', JStr ''2''), (''timestamp'', JInt 17), (''recvWindow'', JInt 60000)]
   \<and> map_of (order_params sample_pylib sample_market ''limit'' ''buy'' (JInt 2) (JInt 0) [] 17)
        ''price'' = None
   \<and> map_of (order_params sample_pylib sample_market ''limit'' ''buy'' (JInt 2) (JInt 0) [] 17)
        ''timeInForce'' = None"
proof -
  have none: "order_params sample_pylib sample_market ''limit'' ''buy'' (JInt 2) JNull [] 17 =
     [(''symbol'', JStr ''BTCUSDT''), (''side'', JStr ''BUY''), (''type'', JStr ''LIMIT''),
      (''quantity'', JStr ''2''), (''timestamp'', JInt 17), (''recvWindow'', JInt 60000)]"
    by (simp add: order_params_def add_price_def required_params_def sample_strs sample_market_def)
  have f0: "\<not> py_truthy sample_pylib (JInt 0)" by simp
  have f1: "\<not> py_truthy sample_pylib (JFloat 0)" by (simp add: sample_pylib_def)
  note zero = falsy_price_treated_as_absent [OF f0, where order_type = "''limit''" and params = "[]"
      and m = sample_market and side = "''buy''" and amount = "JInt 2" and timestamp = 17]
  note fzero = falsy_price_treated_as_absent [OF f1, where order_type = "''limit''" and params = "[]"
      and m = sample_market and side = "''buy''" and amount = "JInt 2" and timestamp = 17]
  show ?thesis using zero fzero none by simp
qed

section \<open>The query string of the signed reads\<close>

lemma digit_char_safe: "d < 10 \<Longrightarrow> always_safe (digit_char d)"
proof -
  assume "d < 10"
  then have "d \<in> {0, 1, 2, 3, 4, 5, 6, 7, 8, 9}" by auto
  then show ?thesis by (auto simp: digit_char_def always_safe_def)
qed

lemma str_nat_nonempty: "str_nat n \<noteq> []"
  by (subst str_nat.simps) simp

lemma str_nat_safe: "list_all always_safe (str_nat n)"
proof (induction n rule: str_nat.induct)
  case (1 n)
  show ?case
  proof (cases "n < 10")
    case True
    then show ?thesis by (subst str_nat.simps) (simp add: digit_char_safe)
  next
    case False
    have "n mod 10 < 10" by simp
    then have "always_safe (digit_char (n mod 10))" by (rule digit_char_safe)
    then show ?thesis using False "1.IH" by (subst str_nat.simps) simp
  qed
qed

lemma str_int_safe: "list_all always_safe (str_int i)"
  by (simp add: str_int_def str_nat_safe always_safe_def)

lemma quote_plus_safe: "list_all always_safe s \<Longrightarrow> quote_plus s = s"
  by (induction s) (simp_all add: quote_plus_def quote_char_def)

lemma quote_plus_str_int [simp]: "quote_plus (str_int i) = str_int i"
  by (simp add: quote_plus_safe str_int_safe)

lemma quote_plus_names:
  "quote_plus ''timestamp'' = ''timestamp''" "quote_plus ''recvWindow'' = ''recvWindow''"
  by (simp_all add: quote_plus_def quote_char_def always_safe_def)

lemma str_int_60000: "str_int 60000 = ''60000''"
  by (simp add: str_int_def str_nat.simps digit_char_def)

lemma urlencode_read_payload:
  "urlencode P (read_payload timestamp) = ''timestamp='' @ str_int timestamp @ ''&recvWindow=60000''"
proof -
  have "urlencode P (read_payload timestamp) =
          ''timestamp='' @ str_int timestamp @ ''&recvWindow='' @ str_int 60000"
    by (simp add: urlencode_def read_payload_def quote_plus_names)
  then show ?thesis by (simp add: str_int_60000)
qed

section \<open>The positions: the arguments that are not used\<close>

text \<open>
  Claim C6. \<^verbatim>\<open>fetch_positions\<close> accepts \<^verbatim>\<open>symbols\<close> (and \<^verbatim>\<open>params\<close>) and uses neither: for
  any two values of the arguments the call sends the same signed request and, the
  exchange answering alike, has the same outcome. The request carries the timestamp and
  the receive window and no symbol.
\<close>

theorem positions_symbols_unused:
  "positions_call_request P W self symbols params = positions_call_request P W self symbols' params'
   \<and> patched_fetch_positions P W self symbols params
       = patched_fetch_positions P W self symbols' params'
   \<and> url (positions_call_request P W self symbols params) =
       testnet @ ''/fapi/v2/positionRisk?'' @
       ''timestamp='' @ str_int (time_ms W) @ ''&recvWindow=60000'' @
       ''&signature='' @
       hmac_sha256_hex P (secret self) (''timestamp='' @ str_int (time_ms W) @ ''&recvWindow=60000'')"
proof -
  have "positions_call_request P W self symbols params
          = positions_call_request P W self symbols' params'"
    by (simp add: positions_call_request_def)
  moreover have "patched_fetch_positions P W self symbols params
       = patched_fetch_positions P W self symbols' params'"
    by (simp add: patched_fetch_positions_def)
  moreover have "url (positions_call_request P W self symbols params) =
       testnet @ ''/fapi/v2/positionRisk?'' @
       ''timestamp='' @ str_int (time_ms W) @ ''&recvWindow=60000'' @
       ''&signature='' @
       hmac_sha256_hex P (secret self) (''timestamp='' @ str_int (time_ms W) @ ''&recvWindow=60000'')"
    by (simp add: positions_call_request_def positions_request_def signed_url_def
        urlencode_read_payload signature_def)
  ultimately show ?thesis by blast
qed

text \<open>
  With no filter and with a filter of one symbol, the sample client sends the same URL.
\<close>

theorem positions_symbols_unused_witness:
  "positions_call_request sample_pylib (sample_world 200 (JArr sample_positions)) sample_client
     JNull []
   = positions_call_request sample_pylib (sample_world 200 (JArr sample_positions)) sample_client
     (JArr [JStr ''BTC/USDT:USDT'']) [(''symbol'', JStr ''BTCUSDT'')]
   \<and> patched_fetch_positions sample_pylib (sample_world 200 (JArr sample_positions)) sample_client
     JNull []
   = patched_fetch_positions sample_pylib (sample_world 200 (JArr sample_positions)) sample_client
     (JArr [JStr ''BTC/USDT:USDT'']) [(''symbol'', JStr ''BTCUSDT'')]"
  using positions_symbols_unused [of sample_pylib "sample_world 200 (JArr sample_positions)"
      sample_client JNull "[]" "JArr [JStr ''BTC/USDT:USDT'']" "[(''symbol'', JStr ''BTCUSDT'')]"]
  by blast

section \<open>Errors: the status check and what can be raised after it\<close>

lemma and_then_eq_Inl:
  "and_then r f = Inl e \<longleftrightarrow> r = Inl e \<or> (\<exists>x. r = Inr x \<and> f x = Inl e)"
  by (cases r) simp_all

lemma py_get_error: "py_get v k d = Inl e \<Longrightarrow> reshape_error e"
  by (cases v) (auto simp: reshape_error_def split: option.splits)

lemma py_getitem_error: "py_getitem v k = Inl e \<Longrightarrow> reshape_error e"
  by (cases v) (auto simp: reshape_error_def split: option.splits)

lemma py_iter_error: "py_iter v = Inl e \<Longrightarrow> reshape_error e"
  by (cases v) (auto simp: reshape_error_def)

lemma py_float_error: "py_float P v = Inl e \<Longrightarrow> reshape_error e"
  by (cases v) (auto simp: reshape_error_def split: option.splits)

lemma setitem2_error: "setitem2 r k c v = Inl e \<Longrightarrow> reshape_error e"
  by (auto simp: setitem2_def reshape_error_def split: option.splits entry.splits)

lemma get_float_error: "and_then (py_get a k d) (py_float P) = Inl e \<Longrightarrow> reshape_error e"
  by (auto simp: and_then_eq_Inl dest: py_get_error py_float_error)

lemma getitem_float_error: "and_then (py_getitem a k) (py_float P) = Inl e \<Longrightarrow> reshape_error e"
  by (auto simp: and_then_eq_Inl dest: py_getitem_error py_float_error)

lemma and_then_errorE:
  assumes "and_then r f = Inl e"
  obtains "r = Inl e" | x where "r = Inr x" "f x = Inl e"
  using assms by (cases r) simp_all

lemma reshape_error_TypeError [simp]: "reshape_error TypeError"
  by (simp add: reshape_error_def)

lemma balance_step_error:
  assumes "balance_step P r a = Inl e"
  shows "reshape_error e"
  using assms unfolding balance_step_def
  by (auto elim!: and_then_errorE split: if_splits)
    (erule py_get_error py_float_error setitem2_error)+

lemma balance_loop_error: "balance_loop P r xs = Inl e \<Longrightarrow> reshape_error e"
proof (induction xs arbitrary: r)
  case Nil
  then show ?case by simp
next
  case (Cons x xs)
  then show ?case by (auto simp: and_then_eq_Inl dest: balance_step_error)
qed

lemma balance_reshape_error: "balance_reshape P d = Inl e \<Longrightarrow> reshape_error e"
  by (auto simp: balance_reshape_def and_then_eq_Inl
      dest: py_get_error py_iter_error balance_loop_error)

lemma position_record_error:
  assumes "position_record P item = Inl e"
  shows "reshape_error e"
  using assms unfolding position_record_def
  by (auto elim!: and_then_errorE) (erule py_getitem_error py_float_error)+

lemma positions_loop_error: "positions_loop P acc xs = Inl e \<Longrightarrow> reshape_error e"
proof (induction xs arbitrary: acc)
  case Nil
  then show ?case by simp
next
  case (Cons x xs)
  then show ?case by (auto simp: and_then_eq_Inl dest: position_record_error)
qed

lemma positions_reshape_error: "positions_reshape P d = Inl e \<Longrightarrow> reshape_error e"
  by (auto simp: positions_reshape_def and_then_eq_Inl dest: py_iter_error positions_loop_error)

lemma ensure_markets_loaded: "markets self \<noteq> [] \<Longrightarrow> ensure_markets W self = (self, Inr ())"
  by (simp add: ensure_markets_def)

lemma patched_fetch_ticker_sent:
  assumes "markets self \<noteq> []" and "market W self symbol = Inr m"
    and "send W (ticker_request m) = Inr (st, data)"
  shows "patched_fetch_ticker P W self symbol params =
           (self, if st \<noteq> 200 then Inl (Exception ''Ticker fetch failed: '' data)
                  else parse_ticker W data m)"
  using assms by (simp add: patched_fetch_ticker_def ensure_markets_loaded)

lemma patched_create_order_sent:
  assumes "markets self \<noteq> []" and "market W self symbol = Inr m"
    and "send W (order_request P self
           (order_params P m order_type side amount price params (time_ms W))) = Inr (st, data)"
  shows "patched_create_order P W self symbol order_type side amount price params =
           (self, if st \<noteq> 200 then Inl (Exception ''Order failed: '' data)
                  else and_then (py_get data ''orderId'' JNull) (\<lambda>order_id.
                       and_then (parse_order W data m) (\<lambda>order. Inr (order_id, order))))"
  using assms by (simp add: patched_create_order_def ensure_markets_loaded Let_def)

lemma send_undecodable:
  "http W req = Inr resp \<Longrightarrow> json_body resp = Inl e \<Longrightarrow> send W req = Inl e"
  by (simp add: send_def)

lemma patched_fetch_ticker_unsent:
  assumes "markets self \<noteq> []" and "market W self symbol = Inr m"
    and "send W (ticker_request m) = Inl e"
  shows "patched_fetch_ticker P W self symbol params = (self, Inl e)"
  using assms by (simp add: patched_fetch_ticker_def ensure_markets_loaded)

lemma patched_create_order_unsent:
  assumes "markets self \<noteq> []" and "market W self symbol = Inr m"
    and "send W (order_request P self
           (order_params P m order_type side amount price params (time_ms W))) = Inl e"
  shows "patched_create_order P W self symbol order_type side amount price params = (self, Inl e)"
  using assms by (simp add: patched_create_order_def ensure_markets_loaded Let_def)

text \<open>
  On a client whose market table is not loaded, the ticker and the order end in the lazy
  load: with the load's own error, or with the TypeError of the \<^verbatim>\<open>await\<close>. No request is
  sent, whatever the exchange would answer.
\<close>

lemma lazy_load_raises:
  assumes "markets self = []"
  shows "\<exists>self' e.
           patched_fetch_ticker P W self symbol params = (self', Inl e) \<and>
           patched_create_order P W self symbol order_type side amount price params
             = (self', Inl e) \<and>
           (load_markets W self = Inl e \<or> (load_markets W self = Inr self' \<and> e = TypeError))"
proof (cases "load_markets W self")
  case (Inl e)
  then show ?thesis using assms
    by (simp add: patched_fetch_ticker_def patched_create_order_def ensure_markets_def)
next
  case (Inr self')
  then show ?thesis using assms
    by (simp add: patched_fetch_ticker_def patched_create_order_def ensure_markets_def)
qed

lemma sample_markets:
  "markets loaded_client \<noteq> []"
  "market (sample_world st body) loaded_client ''BTC/USDT:USDT'' = Inr sample_market"
  by (simp_all add: sample_world_def sample_client_def loaded_client_def)

lemma sample_parsers:
  "parse_ticker (sample_world st body) d m = Inr d" "parse_order (sample_world st body) d m = Inr d"
  by (simp_all add: sample_world_def)

text \<open>
  Claim C5 says that each of the four operations raises the API error, carrying the
  decoded body, whenever the exchange answers with a status other than 200, and returns
  normally otherwise. The second half does not hold: the code reshapes a 200 payload
  without a guard, so a payload of another shape is an exception that is not the API
  error. Nor is the API error raised when the body of an answer does not decode, as the
  body is decoded before the status is looked at. Here: a wallet balance that is no
  number, a position without its \<^verbatim>\<open>unRealizedProfit\<close>, and a 502 answer that is not JSON.
\<close>

theorem returns_normally_otherwise_counterexample:
  "patched_fetch_balance sample_pylib (sample_world 200 unreadable_account) sample_client []
     = Inl ValueError
   \<and> patched_fetch_positions sample_pylib (sample_world 200 (JArr [short_position])) sample_client
       JNull []
     = Inl KeyError
   \<and> patched_fetch_balance sample_pylib (html_world 502) sample_client [] = Inl ContentTypeError"
proof -
  have "sample_float_of_str ''n/a'' = None"
    by (simp add: sample_float_of_str_def digit_val_def)
  then have 1: "patched_fetch_balance sample_pylib (sample_world 200 unreadable_account)
      sample_client [] = Inl ValueError"
    by (simp add: patched_fetch_balance_def balance_reshape_def unreadable_account_def
        balance_step_def sample_pylib_def)
  have 2: "patched_fetch_positions sample_pylib (sample_world 200 (JArr [short_position]))
      sample_client JNull [] = Inl KeyError"
    by (simp add: patched_fetch_positions_def positions_reshape_def short_position_def
        position_record_def sample_pylib_def sample_floats sample_float_of_str_def digit_val_def)
  have 3: "patched_fetch_balance sample_pylib (html_world 502) sample_client []
      = Inl ContentTypeError"
    by (simp add: patched_fetch_balance_def send_def html_world_def)
  show ?thesis using 1 2 3 by simp
qed

text \<open>
  Claim C5 as amended. The ticker and the order are taken on a client whose market table
  is loaded and for a symbol that resolves, so that the request is sent. For an answer
  whose body decodes to \<open>d\<close>: with a status other than 200 the operation raises the API
  error, an \<^verbatim>\<open>Exception\<close> whose message is the operation's text followed by \<open>d\<close>; with
  status 200 its outcome is that of reshaping \<open>d\<close> (balance, positions), of the library's
  \<^verbatim>\<open>parse_ticker\<close> (ticker), or of reading \<^verbatim>\<open>orderId\<close> and the library's \<^verbatim>\<open>parse_order\<close>
  (order). Reshaping never raises the API error: when it fails, it fails with
  AttributeError, KeyError, TypeError, ValueError or OverflowError. When no decoded body
  arrives, because the session raises or because \<^verbatim>\<open>response.json()\<close> raises on the answer,
  whatever its status, the operation raises that error.
\<close>

theorem api_error_exactly_on_non200:
  "(send W (balance_request P self (time_ms W)) = Inr (st, d) \<longrightarrow>
      patched_fetch_balance P W self params =
        (if st \<noteq> 200 then Inl (Exception ''Balance fetch failed: '' d) else balance_reshape P d) \<and>
      (\<forall>e. balance_reshape P d = Inl e \<longrightarrow> reshape_error e))
   \<and> (send W (positions_request P self (time_ms W)) = Inr (st, d) \<longrightarrow>
      patched_fetch_positions P W self symbols params =
        (if st \<noteq> 200 then Inl (Exception ''Positions fetch failed: '' d)
         else positions_reshape P d) \<and>
      (\<forall>e. positions_reshape P d = Inl e \<longrightarrow> reshape_error e))
   \<and> (markets self \<noteq> [] \<and> market W self symbol = Inr m \<and>
       send W (ticker_request m) = Inr (st, d) \<longrightarrow>
      patched_fetch_ticker P W self symbol params =
        (self, if st \<noteq> 200 then Inl (Exception ''Ticker fetch failed: '' d)
               else parse_ticker W d m))
   \<and> (markets self \<noteq> [] \<and> market W self symbol = Inr m \<and>
       send W (order_request P self
         (order_params P m order_type side amount price params (time_ms W))) = Inr (st, d) \<longrightarrow>
      patched_create_order P W self symbol order_type side amount price params =
        (self, if st \<noteq> 200 then Inl (Exception ''Order failed: '' d)
               else and_then (py_get d ''orderId'' JNull) (\<lambda>order_id.
                    and_then (parse_order W d m) (\<lambda>order. Inr (order_id, order)))))
   \<and> (http W req = Inr resp \<and> json_body resp = Inl err \<longrightarrow> send W req = Inl err)
   \<and> (send W (balance_request P self (time_ms W)) = Inl err \<longrightarrow>
      patched_fetch_balance P W self params = Inl err)
   \<and> (send W (positions_request P self (time_ms W)) = Inl err \<longrightarrow>
      patched_fetch_positions P W self symbols params = Inl err)
   \<and> (markets self \<noteq> [] \<and> market W self symbol = Inr m \<and>
       send W (ticker_request m) = Inl err \<longrightarrow>
      patched_fetch_ticker P W self symbol params = (self, Inl err))
   \<and> (markets self \<noteq> [] \<and> market W self symbol = Inr m \<and>
       send W (order_request P self
         (order_params P m order_type side amount price params (time_ms W))) = Inl err \<longrightarrow>
      patched_create_order P W self symbol order_type side amount price params = (self, Inl err))"
proof (intro conjI impI allI)
  assume "send W (balance_request P self (time_ms W)) = Inr (st, d)"
  then show "patched_fetch_balance P W self params =
        (if st \<noteq> 200 then Inl (Exception ''Balance fetch failed: '' d) else balance_reshape P d)"
    by (rule patched_fetch_balance_sent)
next
  fix e assume "balance_reshape P d = Inl e"
  then show "reshape_error e" by (rule balance_reshape_error)
next
  assume "send W (positions_request P self (time_ms W)) = Inr (st, d)"
  then show "patched_fetch_positions P W self symbols params =
        (if st \<noteq> 200 then Inl (Exception ''Positions fetch failed: '' d)
         else positions_reshape P d)"
    by (rule patched_fetch_positions_sent)
next
  fix e assume "positions_reshape P d = Inl e"
  then show "reshape_error e" by (rule positions_reshape_error)
next
  assume "markets self \<noteq> [] \<and> market W self symbol = Inr m \<and>
       send W (ticker_request m) = Inr (st, d)"
  then show "patched_fetch_ticker P W self symbol params =
        (self, if st \<noteq> 200 then Inl (Exception ''Ticker fetch failed: '' d)
               else parse_ticker W d m)"
    using patched_fetch_ticker_sent [of self W symbol m st d P params] by blast
next
  assume "markets self \<noteq> [] \<and> market W self symbol = Inr m \<and>
       send W (order_request P self
         (order_params P m order_type side amount price params (time_ms W))) = Inr (st, d)"
  then show "patched_create_order P W self symbol order_type side amount price params =
        (self, if st \<noteq> 200 then Inl (Exception ''Order failed: '' d)
               else and_then (py_get d ''orderId'' JNull) (\<lambda>order_id.
                    and_then (parse_order W d m) (\<lambda>order. Inr (order_id, order))))"
    using patched_create_order_sent [of self W symbol m P order_type side amount price
        params st d] by blast
next
  assume "http W req = Inr resp \<and> json_body resp = Inl err"
  then show "send W req = Inl err" by (simp add: send_undecodable)
next
  assume "send W (balance_request P self (time_ms W)) = Inl err"
  then show "patched_fetch_balance P W self params = Inl err"
    by (simp add: patched_fetch_balance_def)
next
  assume "send W (positions_request P self (time_ms W)) = Inl err"
  then show "patched_fetch_positions P W self symbols params = Inl err"
    by (simp add: patched_fetch_positions_def)
next
  assume "markets self \<noteq> [] \<and> market W self symbol = Inr m \<and>
       send W (ticker_request m) = Inl err"
  then show "patched_fetch_ticker P W self symbol params = (self, Inl err)"
    using patched_fetch_ticker_unsent [of self W symbol m err P params] by blast
next
  assume "markets self \<noteq> [] \<and> market W self symbol = Inr m \<and>
       send W (order_request P self
         (order_params P m order_type side amount price params (time_ms W))) = Inl err"
  then show "patched_create_order P W self symbol order_type side amount price params
      = (self, Inl err)"
    using patched_create_order_unsent [of self W symbol m P order_type side amount price
        params err] by blast
qed

text \<open>
  A simulated 400 answer makes each of the four operations raise the API error with the
  body, the ticker and the order on a client whose markets are loaded; a 200 answer makes
  the ticker and the order return; a 502 answer that is not JSON makes the ticker raise
  the decoder's error.
\<close>

theorem api_error_exactly_on_non200_witness:
  "patched_fetch_balance sample_pylib (sample_world 400 error_body) sample_client []
     = Inl (Exception ''Balance fetch failed: '' error_body)
   \<and> patched_fetch_positions sample_pylib (sample_world 400 error_body) sample_client JNull []
     = Inl (Exception ''Positions fetch failed: '' error_body)
   \<and> snd (patched_fetch_ticker sample_pylib (sample_world 400 error_body) loaded_client
            ''BTC/USDT:USDT'' [])
     = Inl (Exception ''Ticker fetch failed: '' error_body)
   \<and> snd (patched_create_order sample_pylib (sample_world 400 error_body) loaded_client
            ''BTC/USDT:USDT'' ''market'' ''buy'' (JInt 2) JNull [])
     = Inl (Exception ''Order failed: '' error_body)
   \<and> snd (patched_fetch_ticker sample_pylib (sample_world 200 order_body) loaded_client
            ''BTC/USDT:USDT'' [])
     = Inr order_body
   \<and> snd (patched_create_order sample_pylib (sample_world 200 order_body) loaded_client
            ''BTC/USDT:USDT'' ''market'' ''buy'' (JInt 2) JNull [])
     = Inr (JInt 42, order_body)
   \<and> snd (patched_fetch_ticker sample_pylib (html_world 502) loaded_client ''BTC/USDT:USDT'' [])
     = Inl ContentTypeError"
proof -
  note bad = api_error_exactly_on_non200 [where W = "sample_world 400 error_body"
      and P = sample_pylib and self = sample_client and st = 400 and d = error_body
      and params = "[]" and symbols = JNull]
  note bad' = api_error_exactly_on_non200 [where W = "sample_world 400 error_body"
      and P = sample_pylib and self = loaded_client and st = 400 and d = error_body
      and symbol = "''BTC/USDT:USDT''" and m = sample_market and params = "[]"
      and order_type = "''market''" and side = "''buy''"
      and amount = "JInt 2" and price = JNull]
  note good = api_error_exactly_on_non200 [where W = "sample_world 200 order_body"
      and P = sample_pylib and self = loaded_client and st = 200 and d = order_body
      and symbol = "''BTC/USDT:USDT''" and m = sample_market and params = "[]"
      and order_type = "''market''" and side = "''buy''"
      and amount = "JInt 2" and price = JNull]
  note html = api_error_exactly_on_non200 [where W = "html_world 502"
      and P = sample_pylib and self = loaded_client and err = ContentTypeError
      and symbol = "''BTC/USDT:USDT''" and m = sample_market and params = "[]"
      and req = "ticker_request sample_market"
      and resp = "\<lparr>status = 502, json_body = Inl ContentTypeError\<rparr>"]
  have 1: "patched_fetch_balance sample_pylib (sample_world 400 error_body) sample_client []
     = Inl (Exception ''Balance fetch failed: '' error_body)"
    "patched_fetch_positions sample_pylib (sample_world 400 error_body) sample_client JNull []
     = Inl (Exception ''Positions fetch failed: '' error_body)"
    using bad by simp_all
  have 2: "snd (patched_fetch_ticker sample_pylib (sample_world 400 error_body) loaded_client
            ''BTC/USDT:USDT'' [])
     = Inl (Exception ''Ticker fetch failed: '' error_body)"
    "snd (patched_create_order sample_pylib (sample_world 400 error_body) loaded_client
            ''BTC/USDT:USDT'' ''market'' ''buy'' (JInt 2) JNull [])
     = Inl (Exception ''Order failed: '' error_body)"
    using bad' by (simp_all add: sample_markets)
  have 3: "snd (patched_fetch_ticker sample_pylib (sample_world 200 order_body) loaded_client
            ''BTC/USDT:USDT'' [])
     = Inr order_body"
    "snd (patched_create_order sample_pylib (sample_world 200 order_body) loaded_client
            ''BTC/USDT:USDT'' ''market'' ''buy'' (JInt 2) JNull [])
     = Inr (JInt 42, order_body)"
    using good by (simp_all add: sample_markets sample_parsers order_body_def)
  have h: "http (html_world 502) (ticker_request sample_market)
             = Inr \<lparr>status = 502, json_body = Inl ContentTypeError\<rparr>"
    "markets loaded_client \<noteq> []"
    "market (html_world 502) loaded_client ''BTC/USDT:USDT'' = Inr sample_market"
    by (simp_all add: html_world_def loaded_client_def sample_client_def)
  have 4: "snd (patched_fetch_ticker sample_pylib (html_world 502) loaded_client
             ''BTC/USDT:USDT'' []) = Inl ContentTypeError"
    using html h by simp
  show ?thesis using 1 2 3 4 by simp
qed

section \<open>The canonical query string determines the printed parameters\<close>

lemma digit_char_inj:
  assumes "d < 10" and "d' < 10" and "digit_char d = digit_char d'"
  shows "d = d'"
proof -
  have "distinct ''0123456789''" by simp
  moreover have "d < length ''0123456789''" "d' < length ''0123456789''"
    using assms(1,2) by simp_all
  ultimately show ?thesis
    using assms(3) unfolding digit_char_def by (simp only: nth_eq_iff_index_eq)
qed

lemma digit_char_digit: "d < 10 \<Longrightarrow> digit_char d \<in> set ''0123456789''"
  unfolding digit_char_def by (rule nth_mem) simp

lemma str_nat_digits: "set (str_nat n) \<subseteq> set ''0123456789''"
proof (induction n rule: str_nat.induct)
  case (1 n)
  show ?case
  proof (cases "n < 10")
    case True
    then show ?thesis using digit_char_digit [of n] by (subst str_nat.simps) simp
  next
    case False
    have "digit_char (n mod 10) \<in> set ''0123456789''" by (rule digit_char_digit) simp
    then show ?thesis using False "1.IH" by (subst str_nat.simps) simp
  qed
qed

lemma str_nat_inj: "str_nat n = str_nat m \<Longrightarrow> n = m"
proof (induction n arbitrary: m rule: str_nat.induct)
  case (1 n)
  show ?case
  proof (cases "n < 10")
    case n: True
    show ?thesis
    proof (cases "m < 10")
      case True
      then show ?thesis using n "1.prems" digit_char_inj [of n m]
        by (simp add: str_nat.simps [of n] str_nat.simps [of m])
    next
      case False
      then have "length (str_nat m) \<ge> 2"
        using str_nat_nonempty [of "m div 10"]
        by (cases "str_nat (m div 10)") (simp_all add: str_nat.simps [of m])
      moreover have "length (str_nat n) = 1" using n by (simp add: str_nat.simps [of n])
      ultimately show ?thesis using "1.prems" by simp
    qed
  next
    case n: False
    show ?thesis
    proof (cases "m < 10")
      case True
      have "length (str_nat n) \<ge> 2"
        using n str_nat_nonempty [of "n div 10"]
        by (cases "str_nat (n div 10)") (simp_all add: str_nat.simps [of n])
      moreover have "length (str_nat m) = 1" using True by (simp add: str_nat.simps [of m])
      ultimately show ?thesis using "1.prems" by simp
    next
      case False
      from "1.prems" n False have
        "str_nat (n div 10) @ [digit_char (n mod 10)] = str_nat (m div 10) @ [digit_char (m mod 10)]"
        by (simp add: str_nat.simps [of n] str_nat.simps [of m])
      then have a: "str_nat (n div 10) = str_nat (m div 10)"
        and b: "digit_char (n mod 10) = digit_char (m mod 10)"
        by simp_all
      have "n div 10 = m div 10" using "1.IH" [OF n a] .
      moreover have "n mod 10 = m mod 10" using digit_char_inj [OF _ _ b] by simp
      ultimately show ?thesis by (metis div_mult_mod_eq)
    qed
  qed
qed

lemma str_nat_no_minus: "str_nat n \<noteq> CHR ''-'' # s"
proof
  assume "str_nat n = CHR ''-'' # s"
  then have "CHR ''-'' \<in> set (str_nat n)" by simp
  then have "CHR ''-'' \<in> set ''0123456789''" using str_nat_digits by blast
  then show False by simp
qed

lemma str_int_inj: "str_int i = str_int j \<Longrightarrow> i = j"
proof -
  assume eq: "str_int i = str_int j"
  consider "i < 0" "j < 0" | "i < 0" "\<not> j < 0" | "\<not> i < 0" "j < 0" | "\<not> i < 0" "\<not> j < 0"
    by blast
  then show ?thesis
  proof cases
    case 1
    then have "nat (- i) = nat (- j)" using eq by (auto simp: str_int_def dest: str_nat_inj)
    then show ?thesis using 1 by simp
  next
    case 2
    then show ?thesis using eq str_nat_no_minus [of "nat j" "str_nat (nat (- i))"]
      by (simp add: str_int_def)
  next
    case 3
    then show ?thesis using eq str_nat_no_minus [of "nat i" "str_nat (nat (- j))"]
      by (simp add: str_int_def)
  next
    case 4
    then have "nat i = nat j" using eq by (auto simp: str_int_def dest: str_nat_inj)
    then show ?thesis using 4 by simp
  qed
qed

lemma hex_digit_inj:
  assumes "d < 16" and "d' < 16" and "hex_digit d = hex_digit d'"
  shows "d = d'"
proof -
  have "distinct ''0123456789ABCDEF''" by simp
  moreover have "d < length ''0123456789ABCDEF''" "d' < length ''0123456789ABCDEF''"
    using assms(1,2) by simp_all
  ultimately show ?thesis
    using assms(3) unfolding hex_digit_def by (simp only: nth_eq_iff_index_eq)
qed

lemma hex_digit_hex: "d < 16 \<Longrightarrow> hex_digit d \<in> set ''0123456789ABCDEF''"
  unfolding hex_digit_def by (rule nth_mem) simp

lemma of_char_div_16: "(of_char c :: nat) div 16 < 16"
proof -
  have "(of_char c :: nat) < 256" by simp
  then show ?thesis by arith
qed

lemma quote_char_cases:
  obtains (safe) "always_safe c" "quote_char c = [c]"
    | (space) "c = CHR '' ''" "quote_char c = ''+''"
    | (hex) "\<not> always_safe c" "c \<noteq> CHR '' ''"
        "quote_char c = [CHR ''%'', hex_digit (of_char c div 16), hex_digit (of_char c mod 16)]"
  by (cases "always_safe c"; cases "c = CHR '' ''") (auto simp: quote_char_def always_safe_def)

lemma not_safe: "\<not> always_safe (CHR ''+'')" "\<not> always_safe (CHR ''%'')"
  "\<not> always_safe (CHR ''='')" "\<not> always_safe (CHR ''&'')"
  by (simp_all add: always_safe_def)

lemma quote_char_first:
  "\<exists>x xs. quote_char c = x # xs \<and> x \<noteq> CHR ''='' \<and> x \<noteq> CHR ''&''"
proof (cases c rule: quote_char_cases)
  case safe
  then show ?thesis using not_safe(3,4) by auto
next
  case space
  then show ?thesis by simp
next
  case hex
  then show ?thesis by simp
qed

lemma quote_char_prefix:
  assumes "quote_char c @ r = quote_char c' @ r'"
  shows "c = c' \<and> r = r'"
proof (cases c rule: quote_char_cases)
  case safe
  show ?thesis
  proof (cases c' rule: quote_char_cases)
    case safe': safe
    then show ?thesis using safe assms by simp
  next
    case space
    then show ?thesis using safe assms not_safe(1) by auto
  next
    case hex
    then show ?thesis using safe assms not_safe(2) by auto
  qed
next
  case space
  show ?thesis
  proof (cases c' rule: quote_char_cases)
    case safe
    then show ?thesis using space assms not_safe(1) by auto
  next
    case space': space
    then show ?thesis using space assms by simp
  next
    case hex
    then show ?thesis using space assms by simp
  qed
next
  case hex
  show ?thesis
  proof (cases c' rule: quote_char_cases)
    case safe
    then show ?thesis using hex assms not_safe(2) by auto
  next
    case space
    then show ?thesis using hex assms by simp
  next
    case hex': hex
    from assms hex(3) hex'(3) have
      hi: "hex_digit (of_char c div 16) = hex_digit (of_char c' div 16)"
      and lo: "hex_digit (of_char c mod 16) = hex_digit (of_char c' mod 16)"
      and r: "r = r'"
      by simp_all
    have "(of_char c :: nat) div 16 = of_char c' div 16"
      using hex_digit_inj [OF of_char_div_16 of_char_div_16 hi] .
    moreover have "(of_char c :: nat) mod 16 = of_char c' mod 16"
      using hex_digit_inj [OF _ _ lo] by simp
    ultimately have "(of_char c :: nat) = of_char c'" by (metis div_mult_mod_eq)
    then show ?thesis using r by simp
  qed
qed

lemma quote_plus_Cons: "quote_plus (c # s) = quote_char c @ quote_plus s"
  by (simp add: quote_plus_def)

lemma quote_plus_Nil: "quote_plus [] = []"
  by (simp add: quote_plus_def)

lemma not_sep_quote: "sep (quote_char c @ r) \<Longrightarrow> False"
  using quote_char_first [of c] by (auto simp: sep_def)

lemma quote_plus_prefix:
  assumes "sep r" and "sep r'" and "quote_plus s @ r = quote_plus s' @ r'"
  shows "s = s' \<and> r = r'"
  using assms(3)
proof (induction s arbitrary: s')
  case Nil
  show ?case
  proof (cases s')
    case Nil
    then show ?thesis using Nil.prems by (simp add: quote_plus_Nil)
  next
    case (Cons c' t')
    then have "r = quote_char c' @ (quote_plus t' @ r')"
      using Nil.prems by (simp add: quote_plus_Nil quote_plus_Cons)
    then show ?thesis using assms(1) not_sep_quote by blast
  qed
next
  case (Cons c t)
  show ?case
  proof (cases s')
    case Nil
    then have "r' = quote_char c @ (quote_plus t @ r)"
      using Cons.prems by (simp add: quote_plus_Nil quote_plus_Cons)
    then show ?thesis using assms(2) not_sep_quote by blast
  next
    case c': (Cons c' t')
    then have "quote_char c @ (quote_plus t @ r) = quote_char c' @ (quote_plus t' @ r')"
      using Cons.prems by (simp add: quote_plus_Cons)
    then have "c = c'" and "quote_plus t @ r = quote_plus t' @ r'"
      using quote_char_prefix by blast+
    then show ?thesis using Cons.IH [of t'] c' by simp
  qed
qed

lemma join_amp_Cons:
  "join_amp (x # xs) = x @ (if xs = [] then [] else ''&'' @ join_amp xs)"
  by (cases xs) simp_all

lemma sep_simps: "sep []" "sep (CHR ''='' # r)" "sep (CHR ''&'' # r)"
  by (simp_all add: sep_def)

lemma encode_pairs_inj:
  fixes ps qs :: "(string \<times> string) list"
  defines "enc \<equiv> (\<lambda>p. quote_plus (fst p) @ ''='' @ quote_plus (snd p))"
  assumes "join_amp (map enc ps) = join_amp (map enc qs)"
  shows "ps = qs"
  using assms(2)
proof (induction ps arbitrary: qs)
  case Nil
  show ?case
  proof (cases qs)
    case Nil
    then show ?thesis by simp
  next
    case (Cons q qs')
    then have "join_amp (map enc qs) \<noteq> []"
      by (simp add: join_amp_Cons enc_def)
    then show ?thesis using Nil.prems by simp
  qed
next
  case (Cons p ps)
  show ?case
  proof (cases qs)
    case Nil
    have "join_amp (map enc (p # ps)) \<noteq> []"
      by (simp add: join_amp_Cons enc_def)
    then show ?thesis using Cons.prems Nil by simp
  next
    case q: (Cons q qs')
    let ?rest = "\<lambda>xs. if xs = [] then [] else ''&'' @ join_amp (map enc xs)"
    have sep_rest: "sep (?rest xs)" for xs
      by (simp add: sep_simps)
    have e: "join_amp (map enc (x # xs))
               = quote_plus (fst x) @ (CHR ''='' # quote_plus (snd x) @ ?rest xs)" for x xs
      by (simp add: join_amp_Cons enc_def)
    have "join_amp (map enc (p # ps)) = join_amp (map enc (q # qs'))"
      using Cons.prems q by simp
    then have "quote_plus (fst p) @ (CHR ''='' # quote_plus (snd p) @ ?rest ps)
            = quote_plus (fst q) @ (CHR ''='' # quote_plus (snd q) @ ?rest qs')"
      by (simp only: e)
    from quote_plus_prefix [OF sep_simps(2) sep_simps(2) this]
    have k: "fst p = fst q"
      and "quote_plus (snd p) @ ?rest ps = quote_plus (snd q) @ ?rest qs'"
      by simp_all
    from quote_plus_prefix [OF sep_rest sep_rest this(2)]
    have v: "snd p = snd q" and rest: "?rest ps = ?rest qs'"
      by simp_all
    have "ps = qs'"
    proof (cases "ps = []")
      case True
      then show ?thesis using rest by (simp split: if_splits)
    next
      case False
      then have "join_amp (map enc ps) = join_amp (map enc qs')"
        using rest by (simp split: if_splits)
      then show ?thesis by (rule Cons.IH)
    qed
    then show ?thesis using k v q by (simp add: prod_eq_iff)
  qed
qed

lemma urlencode_printed:
  "urlencode P d =
     join_amp (map (\<lambda>p. quote_plus (fst p) @ ''='' @ quote_plus (snd p)) (printed P d))"
  by (simp add: urlencode_def printed_def comp_def)

lemma urlencode_eq_iff: "urlencode P d = urlencode P d' \<longleftrightarrow> printed P d = printed P d'"
proof
  assume "urlencode P d = urlencode P d'"
  then show "printed P d = printed P d'"
    unfolding urlencode_printed by (rule encode_pairs_inj)
next
  assume "printed P d = printed P d'"
  then show "urlencode P d = urlencode P d'"
    by (simp add: urlencode_printed)
qed

lemma printed_read_payload:
  "printed P (read_payload t) = printed P (read_payload t') \<longleftrightarrow> t = t'"
  by (auto simp: printed_def read_payload_def dest: str_int_inj)

section \<open>The signature\<close>

text \<open>
  Claim C8 says that the signature of a fixed parameter set under a fixed secret is
  reproducible, and that two parameter sets that differ in a parameter value have
  different signatures. The second half does not hold: \<^verbatim>\<open>urlencode\<close> writes every value
  through \<^verbatim>\<open>str\<close>, so the int 7 and the str \<^verbatim>\<open>'7'\<close> give one query string, and two
  \<^verbatim>\<open>create_order\<close> calls whose extras differ in just that are signed alike, whatever the
  digest function and the secret.
\<close>

theorem signature_injective_counterexample:
  "order_params sample_pylib sample_market ''market'' ''buy'' (JInt 2) JNull
      [(''newClientOrderId'', JInt 7)] 17
     \<noteq> order_params sample_pylib sample_market ''market'' ''buy'' (JInt 2) JNull
      [(''newClientOrderId'', JStr ''7'')] 17
   \<and> (\<forall>P k. signature P k (urlencode P
          (order_params P sample_market ''market'' ''buy'' (JInt 2) JNull
             [(''newClientOrderId'', JInt 7 :: 'f json)] 17))
        = signature P k (urlencode P
          (order_params P sample_market ''market'' ''buy'' (JInt 2) JNull
             [(''newClientOrderId'', JStr ''7'')] 17)))"
proof -
  have s7: "str_int 7 = ''7''"
    by (simp add: str_int_def str_nat.simps digit_char_def)
  have p: "order_params P sample_market ''market'' ''buy'' (JInt 2) JNull
             [(''newClientOrderId'', v)] 17
           = required_params P sample_market ''market'' ''buy'' (JInt 2) 17
               @ [(''newClientOrderId'', v)]" for P :: "'a pylib" and v
    by (simp add: order_params_def add_price_def required_params_def dict_keys_def)
  have 1: "order_params sample_pylib sample_market ''market'' ''buy'' (JInt 2) JNull
      [(''newClientOrderId'', JInt 7)] 17
     \<noteq> order_params sample_pylib sample_market ''market'' ''buy'' (JInt 2) JNull
      [(''newClientOrderId'', JStr ''7'')] 17"
    by (simp add: p)
  have 2: "urlencode P
          (order_params P sample_market ''market'' ''buy'' (JInt 2) JNull
             [(''newClientOrderId'', JInt 7)] 17)
        = urlencode P
          (order_params P sample_market ''market'' ''buy'' (JInt 2) JNull
             [(''newClientOrderId'', JStr ''7'')] 17)" for P :: "'f pylib"
    by (simp add: urlencode_eq_iff printed_def p s7)
  show ?thesis using 1 2 by simp
qed

text \<open>
  Claim C8 as amended. The signature is the HMAC-SHA256 hex digest of the canonical
  query string under the secret, so it is the same at every computation for a fixed
  secret and parameter set (timestamp included), and the signed URL depends on the client
  through its secret only. Two parameter sets have the same canonical query string
  exactly when they have the same keys in the same order and values that print alike
  under \<^verbatim>\<open>str\<close>; two different timestamps of a signed read give different query strings.
  Parameter sets that print alike are signed alike, and sets that print differently have
  different signatures unless the digest collides on two different messages, which is a
  matter of HMAC-SHA256 and not of this code.
\<close>

theorem signature_determined_by_printed_parameters:
  "signature P k (urlencode P d) = hmac_sha256_hex P k (urlencode P d)
   \<and> (urlencode P d = urlencode P d' \<longleftrightarrow> printed P d = printed P d')
   \<and> (printed P d = printed P d' \<longrightarrow>
        signature P k (urlencode P d) = signature P k (urlencode P d'))
   \<and> (printed P d \<noteq> printed P d' \<and>
        signature P k (urlencode P d) = signature P k (urlencode P d') \<longrightarrow>
        (\<exists>q q'. q \<noteq> q' \<and> hmac_sha256_hex P k q = hmac_sha256_hex P k q'))
   \<and> (timestamp \<noteq> timestamp' \<longrightarrow>
        urlencode P (read_payload timestamp) \<noteq> urlencode P (read_payload timestamp'))
   \<and> (secret self = secret self' \<longrightarrow> signed_url P self path d = signed_url P self' path d)"
proof (intro conjI impI)
  show "signature P k (urlencode P d) = hmac_sha256_hex P k (urlencode P d)"
    by (simp add: signature_def)
next
  show "urlencode P d = urlencode P d' \<longleftrightarrow> printed P d = printed P d'"
    by (rule urlencode_eq_iff)
next
  assume "printed P d = printed P d'"
  then have "urlencode P d = urlencode P d'" by (simp add: urlencode_eq_iff)
  then show "signature P k (urlencode P d) = signature P k (urlencode P d')" by simp
next
  assume a: "printed P d \<noteq> printed P d' \<and>
        signature P k (urlencode P d) = signature P k (urlencode P d')"
  then have "urlencode P d \<noteq> urlencode P d'" by (simp add: urlencode_eq_iff)
  moreover have "hmac_sha256_hex P k (urlencode P d) = hmac_sha256_hex P k (urlencode P d')"
    using a by (simp add: signature_def)
  ultimately show "\<exists>q q'. q \<noteq> q' \<and> hmac_sha256_hex P k q = hmac_sha256_hex P k q'"
    by blast
next
  assume "timestamp \<noteq> timestamp'"
  then show "urlencode P (read_payload timestamp) \<noteq> urlencode P (read_payload timestamp')"
    by (simp add: urlencode_eq_iff printed_read_payload)
next
  assume "secret self = secret self'"
  then show "signed_url P self path d = signed_url P self' path d"
    by (simp add: signed_url_def)
qed

text \<open>
  With a digest that has no collision at all, two timestamps one millisecond apart are
  signed differently, the values 7 and \<^verbatim>\<open>'7'\<close> are signed alike, and another API key
  leaves the signed URL as it is.
\<close>

theorem signature_determined_by_printed_parameters_witness:
  "signature sample_pylib ''secret'' (urlencode sample_pylib (read_payload 1700000000000))
     \<noteq> signature sample_pylib ''secret'' (urlencode sample_pylib (read_payload 1700000000001))
   \<and> signature sample_pylib ''secret'' (urlencode sample_pylib [(''newClientOrderId'', JInt 7)])
     = signature sample_pylib ''secret'' (urlencode sample_pylib [(''newClientOrderId'', JStr ''7'')])
   \<and> signed_url sample_pylib sample_client ''/fapi/v2/account'' (read_payload 1700000000000)
     = signed_url sample_pylib (sample_client\<lparr>apiKey := ''other key''\<rparr>) ''/fapi/v2/account''
         (read_payload 1700000000000)"
proof -
  note main = signature_determined_by_printed_parameters
  have s7: "str_int 7 = ''7''"
    by (simp add: str_int_def str_nat.simps digit_char_def)
  have no_collision: "\<not> (\<exists>q q'. q \<noteq> q' \<and>
      hmac_sha256_hex sample_pylib ''secret'' q = hmac_sha256_hex sample_pylib ''secret'' q')"
    by (simp add: sample_pylib_def)
  have differ: "printed sample_pylib (read_payload 1700000000000)
      \<noteq> printed sample_pylib (read_payload 1700000000001 :: (string \<times> real json) list)"
    by (simp add: printed_read_payload)
  have 1: "signature sample_pylib ''secret'' (urlencode sample_pylib (read_payload 1700000000000))
     \<noteq> signature sample_pylib ''secret'' (urlencode sample_pylib (read_payload 1700000000001))"
    using main [of sample_pylib "''secret''" "read_payload 1700000000000"
        "read_payload 1700000000001"] no_collision differ
    by blast
  have "printed sample_pylib [(''newClientOrderId'', JInt 7)]
      = printed sample_pylib [(''newClientOrderId'', JStr ''7'')]"
    by (simp add: printed_def s7)
  then have 2: "signature sample_pylib ''secret''
        (urlencode sample_pylib [(''newClientOrderId'', JInt 7)])
     = signature sample_pylib ''secret''
        (urlencode sample_pylib [(''newClientOrderId'', JStr ''7'')])"
    using main [of sample_pylib "''secret''" "[(''newClientOrderId'', JInt 7)]"
        "[(''newClientOrderId'', JStr ''7'')]"]
    by blast
  have 3: "signed_url sample_pylib sample_client ''/fapi/v2/account'' (read_payload 1700000000000)
     = signed_url sample_pylib (sample_client\<lparr>apiKey := ''other key''\<rparr>) ''/fapi/v2/account''
         (read_payload 1700000000000)"
    using main [where self = sample_client and self' = "sample_client\<lparr>apiKey := ''other key''\<rparr>"
        and P = sample_pylib and path = "''/fapi/v2/account''" and d = "read_payload 1700000000000"]
    by simp
  show ?thesis using 1 2 3 by simp
qed

end
